theory Spec2Isabelle
  imports Main "HOL-Library.Word" "HOL-Library.RBT_Impl"
begin

unbundle bit_operations_syntax

section \<open>Greybus operations (operation.c)\<close>

text \<open>
  The operation layer of Greybus: message headers, operation buffers, the per-connection
  tree of pending operations, creation, sending, completion, and the receive path.
  The model is sequential. The global spinlock \<open>gb_operations_lock\<close> only serialises
  the critical sections and is not represented. Pointers are references (natural
  numbers) into two stores, one of live \<open>gbuf\<close>s and one of live operations; a null
  pointer is \<open>None\<close>. What C leaves undefined (a store or load past the end of a block, a
  dangling or null dereference, a loop that never exits) is a \<open>fault\<close> value.
  \<open>gb_operation_gbuf_complete\<close> (which only prints a diagnostic),
  \<open>gb_operation_destroy\<close>, \<open>gb_operation_response_send\<close> and the set-up of the
  workqueue are not needed by the properties below and are left out.
\<close>

subsection \<open>Machine types and the message header\<close>

type_synonym u8 = "8 word"
type_synonym u16 = "16 word"

datatype fault =
    Out_of_bounds_read
  | Out_of_bounds_write
  | Bad_pointer
  | No_return

text \<open>\<open>GB_OPERATION_TYPE_RESPONSE\<close> and \<open>GB_OPERATION_MESSAGE_SIZE_MAX\<close>.\<close>

definition GB_OPERATION_TYPE_RESPONSE :: u8 where
  "GB_OPERATION_TYPE_RESPONSE = 0x80"

definition GB_OPERATION_MESSAGE_SIZE_MAX :: nat where
  "GB_OPERATION_MESSAGE_SIZE_MAX = 4096"

text \<open>
  \<open>struct gb_operation_msg_hdr\<close>: \<open>size\<close> (le16, bytes 0 and 1), \<open>id\<close> (le16, bytes 2
  and 3), \<open>type\<close> (byte 4), three bytes of padding; the struct is aligned to 8, so its size
  is 8.
\<close>

definition sizeof_hdr :: nat where
  "sizeof_hdr = 8"

text \<open>
  A little-endian 16-bit field at an offset of a block of bytes. \<open>cpu_to_le16\<close> and
  \<open>le16_to_cpu\<close> are these two functions: the model keeps the bytes as they are on the
  wire. Outside the block the access is undefined in C: \<open>None\<close>.
\<close>

definition le16_store :: "u8 list \<Rightarrow> nat \<Rightarrow> u16 \<Rightarrow> u8 list option" where
  "le16_store buf off v =
     (if off + 1 < length buf
      then Some (buf[off := ucast v, off + 1 := ucast (drop_bit 8 v)])
      else None)"

definition le16_load :: "u8 list \<Rightarrow> nat \<Rightarrow> u16 option" where
  "le16_load buf off =
     (if off + 1 < length buf
      then Some (ucast (buf ! off) OR push_bit 8 (ucast (buf ! (off + 1))))
      else None)"

definition u8_store :: "u8 list \<Rightarrow> nat \<Rightarrow> u8 \<Rightarrow> u8 list option" where
  "u8_store buf off v = (if off < length buf then Some (buf[off := v]) else None)"

definition u8_load :: "u8 list \<Rightarrow> nat \<Rightarrow> u8 option" where
  "u8_load buf off = (if off < length buf then Some (buf ! off) else None)"

definition hdr_size :: "u8 list \<Rightarrow> u16 option" where
  "hdr_size buf = le16_load buf 0"

definition hdr_id :: "u8 list \<Rightarrow> u16 option" where
  "hdr_id buf = le16_load buf 2"

definition hdr_type :: "u8 list \<Rightarrow> u8 option" where
  "hdr_type buf = u8_load buf 4"

text \<open>
  \<open>memcpy(dst, src, n)\<close> on two blocks: the first \<open>n\<close> bytes of \<open>dst\<close> become the first
  \<open>n\<close> bytes of \<open>src\<close>. Writing past the end of \<open>dst\<close> or reading past the end of \<open>src\<close>
  is undefined.
\<close>

definition memcpy :: "u8 list \<Rightarrow> u8 list \<Rightarrow> nat \<Rightarrow> fault + u8 list" where
  "memcpy dst src n =
     (if length dst < n then Inl Out_of_bounds_write
      else if length src < n then Inl Out_of_bounds_read
      else Inr (take n src @ drop n dst))"

subsection \<open>Buffers, operations, the connection\<close>

text \<open>
  The two status values the file uses, \<open>GB_OP_SUCCESS\<close> and \<open>GB_OP_PROTOCOL_BAD\<close>; their
  numbers are declared outside this file and no function here depends on them. A field that
  has not been assigned yet is \<open>None\<close>.
\<close>

datatype gb_status = GB_OP_SUCCESS | GB_OP_PROTOCOL_BAD

text \<open>
  \<open>struct gbuf\<close>, the fields this file reads or writes. \<open>transfer_buffer\<close> is the block
  of memory itself; \<open>transfer_buffer_length\<close> is the field that records its size.
\<close>

record gbuf =
  transfer_buffer :: "u8 list"
  transfer_buffer_length :: nat
  actual_length :: nat
  status :: "gb_status option"
  gbuf_context :: nat
  data_out :: bool

text \<open>
  \<open>struct gb_operation\<close>. The callback is a function pointer supplied by the caller; the
  model keeps its identity (a number) and records each call of it. The payload pointers
  \<open>request_payload\<close> and \<open>response_payload\<close> are the buffers at offset \<open>sizeof_hdr\<close>
  and carry no information of their own.
\<close>

record gb_operation =
  request :: "nat option"
  response :: "nat option"
  op_id :: u16
  result :: "gb_status option"
  callback :: "nat option"

text \<open>
  \<open>struct gb_connection\<close>: the protocol, the counter behind
  \<open>gb_connection_operation_id\<close>, the red-black tree \<open>pending\<close> (keyed by operation id,
  each node being the \<open>node\<close> member of an operation), and the list \<open>operations\<close>.
\<close>

record gb_connection =
  protocol :: u8
  op_cycle :: u16
  pending :: "(u16, nat) rbt"
  operations :: "nat list"

text \<open>
  What can be observed from outside: diagnostics of \<open>gb_connection_err\<close>, calls of a
  completion callback, \<open>complete_all\<close> on an operation's completion, the calls into
  the transport, and a warning of \<open>WARN_ON\<close>.
\<close>

datatype event =
    Err string
  | Callback_called nat nat
  | Complete_all nat
  | Gbuf_submitted nat
  | Gbuf_killed nat
  | Gbuf_finished "nat option"
  | Warn_on

text \<open>
  The state: the connection the functions are called on, the live operations and buffers,
  the next fresh reference, the outcomes of the coming allocation attempts in order
  (\<open>True\<close> succeeds; when the list is used up every attempt succeeds), the work queued on
  \<open>gb_operation_recv_workqueue\<close>, and the trace of events.
\<close>

record gb_state =
  conn :: gb_connection
  ops :: "nat \<rightharpoonup> gb_operation"
  gbufs :: "nat \<rightharpoonup> gbuf"
  next_ref :: nat
  alloc_script :: "bool list"
  recv_workqueue :: "nat list"
  trace :: "event list"

definition gb_connection_err :: "string \<Rightarrow> gb_state \<Rightarrow> gb_state" where
  "gb_connection_err msg st = st\<lparr>trace := trace st @ [Err msg]\<rparr>"

text \<open>One allocation attempt: its outcome and the rest of the script.\<close>

definition alloc_attempt :: "gb_state \<Rightarrow> bool \<times> gb_state" where
  "alloc_attempt st =
     (case alloc_script st of
        [] \<Rightarrow> (True, st)
      | b # bs \<Rightarrow> (b, st\<lparr>alloc_script := bs\<rparr>))"

subsection \<open>The pending tree: insert, remove, find\<close>

text \<open>
  Modelled from the spec: \<open>gb_connection_operation_id\<close> is defined outside this file.
  The spec has the identifier come from a counter of the connection that advances by one,
  wraps at 16 bits, and never gives zero.
\<close>

definition gb_connection_operation_id :: "gb_connection \<Rightarrow> u16 \<times> gb_connection" where
  "gb_connection_operation_id c =
     (let n = op_cycle c + 1; n' = (if n = 0 then 1 else n)
      in (n', c\<lparr>op_cycle := n'\<rparr>))"

text \<open>
  The \<open>while (*link)\<close> loop of \<open>gb_operation_insert\<close>. At each node it reads the id
  of the node's operation from the operation itself (\<open>other->id\<close>), so it takes the store
  of operations as it is when the loop starts, with the new id already written. At a larger
  id it goes left, at a smaller id right, and at an equal id it changes nothing and so never
  leaves the loop. The result is \<open>None\<close> when the loop exits, and the fault otherwise.
\<close>

primrec insert_walk :: "(nat \<rightharpoonup> gb_operation) \<Rightarrow> (u16, nat) rbt \<Rightarrow> u16 \<Rightarrow> fault option" where
  "insert_walk m RBT_Impl.Empty i = None"
| "insert_walk m (Branch c l k v r) i =
     (case m v of
        None \<Rightarrow> Some Bad_pointer
      | Some other \<Rightarrow>
          if op_id other > i then insert_walk m l i
          else if op_id other < i then insert_walk m r i
          else Some No_return)"

text \<open>
  \<open>gb_operation_insert\<close>. The id is written to the operation and to the header of its
  request before the loop. \<open>rb_link_node\<close> and \<open>rb_insert_color\<close> belong to the kernel's
  red-black tree library: they hang the node at the leaf position the loop found and
  rebalance. They are modelled by the red-black insertion of HOL-Library; linking a node
  that is already in the tree is undefined. The loop also loads
  \<open>other->request->transfer_buffer\<close> into a variable it never reads; that load is left out.
\<close>

definition gb_operation_insert :: "nat \<Rightarrow> gb_state \<Rightarrow> fault + gb_state" where
  "gb_operation_insert r st =
     (case ops st r of
        None \<Rightarrow> Inl Bad_pointer
      | Some operation \<Rightarrow>
         (let (i, c) = gb_connection_operation_id (conn st) in
          case request operation of
            None \<Rightarrow> Inl Bad_pointer
          | Some rq \<Rightarrow>
             (case gbufs st rq of
                None \<Rightarrow> Inl Bad_pointer
              | Some g \<Rightarrow>
                 (case le16_store (transfer_buffer g) 2 i of
                    None \<Rightarrow> Inl Out_of_bounds_write
                  | Some tb \<Rightarrow>
                     (let ops1 = (ops st)(r \<mapsto> operation\<lparr>op_id := i\<rparr>) in
                      case insert_walk ops1 (pending c) i of
                        Some f \<Rightarrow> Inl f
                      | None \<Rightarrow>
                          if r \<in> set (map snd (RBT_Impl.entries (pending c)))
                          then Inl Bad_pointer
                          else Inr (st\<lparr>conn := c\<lparr>pending := rbt_insert i r (pending c)\<rparr>,
                                       ops := ops1,
                                       gbufs := (gbufs st)(rq \<mapsto>
                                                  g\<lparr>transfer_buffer := tb\<rparr>)\<rparr>))))))"

text \<open>
  \<open>gb_operation_remove\<close>. \<open>rb_erase\<close> is the kernel library's deletion of a node that is
  linked in the tree; on a node that is not in the tree it is undefined.
\<close>

definition gb_operation_remove :: "nat \<Rightarrow> gb_state \<Rightarrow> fault + gb_state" where
  "gb_operation_remove r st =
     (case ops st r of
        None \<Rightarrow> Inl Bad_pointer
      | Some operation \<Rightarrow>
          if rbt_lookup (pending (conn st)) (op_id operation) = Some r
          then Inr (st\<lparr>conn := (conn st)\<lparr>pending :=
                         rbt_delete (op_id operation) (pending (conn st))\<rparr>\<rparr>)
          else Inl Bad_pointer)"

text \<open>
  The loop of \<open>gb_operation_find\<close>, and the function. The loop writes nothing, so the id
  it reads at a node is the one the node was inserted under, which is the key the tree keeps.
\<close>

primrec find_walk :: "(u16, nat) rbt \<Rightarrow> u16 \<Rightarrow> nat option" where
  "find_walk RBT_Impl.Empty i = None"
| "find_walk (Branch c l other v r) i =
     (if other > i then find_walk l i
      else if other < i then find_walk r i
      else Some v)"

definition gb_operation_find :: "gb_state \<Rightarrow> u16 \<Rightarrow> nat option" where
  "gb_operation_find st i = find_walk (pending (conn st)) i"

subsection \<open>Allocation\<close>

text \<open>
  \<open>kzalloc\<close> of an operation: a zero-filled object at a fresh reference, or a null
  pointer. \<open>kfree\<close> gives it back.
\<close>

definition zeroed_operation :: gb_operation where
  "zeroed_operation =
     \<lparr>request = None, response = None, op_id = 0, result = None, callback = None\<rparr>"

definition kzalloc_operation :: "gb_state \<Rightarrow> nat option \<times> gb_state" where
  "kzalloc_operation st =
     (let (ok, st1) = alloc_attempt st in
      if ok
      then (Some (next_ref st1),
            st1\<lparr>ops := (ops st1)(next_ref st1 \<mapsto> zeroed_operation),
                 next_ref := Suc (next_ref st1)\<rparr>)
      else (None, st1))"

definition kfree_operation :: "nat \<Rightarrow> gb_state \<Rightarrow> gb_state" where
  "kfree_operation r st = st\<lparr>ops := (ops st)(r := None)\<rparr>"

text \<open>
  Modelled from the spec: \<open>greybus_alloc_gbuf\<close> and \<open>greybus_free_gbuf\<close> are defined
  outside this file. The spec has allocation return a buffer of the requested size with
  the given context, or fail, and has freeing an absent buffer do nothing. The bytes of a
  new buffer are taken to be zero.
\<close>

definition greybus_alloc_gbuf :: "nat \<Rightarrow> bool \<Rightarrow> nat \<Rightarrow> gb_state \<Rightarrow> nat option \<times> gb_state" where
  "greybus_alloc_gbuf sz out ctx st =
     (let (ok, st1) = alloc_attempt st in
      if ok
      then (Some (next_ref st1),
            st1\<lparr>gbufs := (gbufs st1)(next_ref st1 \<mapsto>
                   \<lparr>transfer_buffer = replicate sz 0, transfer_buffer_length = sz,
                    actual_length = 0, status = None, gbuf_context = ctx, data_out = out\<rparr>),
                 next_ref := Suc (next_ref st1)\<rparr>)
      else (None, st1))"

definition greybus_free_gbuf :: "nat option \<Rightarrow> gb_state \<Rightarrow> gb_state" where
  "greybus_free_gbuf g st =
     (case g of None \<Rightarrow> st | Some r \<Rightarrow> st\<lparr>gbufs := (gbufs st)(r := None)\<rparr>)"

text \<open>
  Writing a field of a live operation or buffer. Both are used only on references the
  caller has just obtained or read, so the reference is live.
\<close>

definition op_set :: "nat \<Rightarrow> (gb_operation \<Rightarrow> gb_operation) \<Rightarrow> gb_state \<Rightarrow> gb_state" where
  "op_set r f st = st\<lparr>ops := (ops st)(r := map_option f (ops st r))\<rparr>"

definition gbuf_set :: "nat \<Rightarrow> (gbuf \<Rightarrow> gbuf) \<Rightarrow> gb_state \<Rightarrow> gb_state" where
  "gbuf_set r f st = st\<lparr>gbufs := (gbufs st)(r := map_option f (gbufs st r))\<rparr>"

subsection \<open>Buffers and operations\<close>

text \<open>
  \<open>gb_operation_gbuf_create\<close>. The size \<open>sz\<close> is a \<open>size_t\<close> (64 bits), so adding the header
  size wraps at \<open>2 ^ 64\<close>; \<open>cpu_to_le16\<close> keeps the low 16 bits of the sum.
\<close>

definition gb_operation_gbuf_create ::
  "nat \<Rightarrow> u8 \<Rightarrow> nat \<Rightarrow> bool \<Rightarrow> gb_state \<Rightarrow> fault + (nat option \<times> gb_state)" where
  "gb_operation_gbuf_create r type sz out st =
     (case ops st r of
        None \<Rightarrow> Inl Bad_pointer
      | Some operation \<Rightarrow>
         (let sz' = (sz + sizeof_hdr) mod 2 ^ 64 in
          case greybus_alloc_gbuf sz' out r st of
            (None, st1) \<Rightarrow> Inr (None, st1)
          | (Some g, st1) \<Rightarrow>
             (case gbufs st1 g of
                None \<Rightarrow> Inl Bad_pointer
              | Some gb \<Rightarrow>
                 (case le16_store (transfer_buffer gb) 0 (of_nat sz') of
                    None \<Rightarrow> Inl Out_of_bounds_write
                  | Some b1 \<Rightarrow>
                     (case le16_store b1 2 0 of
                        None \<Rightarrow> Inl Out_of_bounds_write
                      | Some b2 \<Rightarrow>
                         (case u8_store b2 4 type of
                            None \<Rightarrow> Inl Out_of_bounds_write
                          | Some b3 \<Rightarrow>
                             Inr (Some g, gbuf_set g (\<lambda>x. x\<lparr>transfer_buffer := b3\<rparr>) st1)))))))"

text \<open>
  The end of \<open>gb_operation_create\<close>: \<open>INIT_WORK\<close> and \<open>init_completion\<close> leave nothing
  to record, the callback is cleared, and the operation is added at the tail of the
  connection's list.
\<close>

definition create_finish :: "nat \<Rightarrow> gb_state \<Rightarrow> gb_state" where
  "create_finish r st =
     (let st1 = op_set r (\<lambda>x. x\<lparr>callback := None\<rparr>) st
      in st1\<lparr>conn := (conn st1)\<lparr>operations := operations (conn st1) @ [r]\<rparr>\<rparr>)"

definition gb_operation_create ::
  "u8 \<Rightarrow> nat \<Rightarrow> nat \<Rightarrow> gb_state \<Rightarrow> fault + (nat option \<times> gb_state)" where
  "gb_operation_create type request_size response_size st =
     (let outgoing = (response_size \<noteq> 0) in
      case kzalloc_operation st of
        (None, st1) \<Rightarrow> Inr (None, st1)
      | (Some r, st1) \<Rightarrow>
         (case gb_operation_gbuf_create r type request_size outgoing st1 of
            Inl f \<Rightarrow> Inl f
          | Inr (None, st2) \<Rightarrow> Inr (None, kfree_operation r st2)
          | Inr (Some rq, st2) \<Rightarrow>
             (let st3 = gbuf_set rq (\<lambda>x. x\<lparr>actual_length := request_size\<rparr>)
                          (op_set r (\<lambda>x. x\<lparr>request := Some rq\<rparr>) st2) in
              if outgoing
              then (case gb_operation_gbuf_create r (type OR GB_OPERATION_TYPE_RESPONSE)
                           response_size False st3 of
                      Inl f \<Rightarrow> Inl f
                    | Inr (None, st4) \<Rightarrow>
                        Inr (None, kfree_operation r (greybus_free_gbuf (Some rq) st4))
                    | Inr (Some rs, st4) \<Rightarrow>
                        Inr (Some r, create_finish r
                                       (op_set r (\<lambda>x. x\<lparr>response := Some rs\<rparr>) st4)))
              else Inr (Some r, create_finish r st3))))"

subsection \<open>Completion, waiting, sending\<close>

text \<open>
  \<open>gb_operation_complete\<close>: the callback if there is one, \<open>complete_all\<close> otherwise.
  What the callback does is the caller's code; the model records that it was called.
\<close>

definition gb_operation_complete :: "nat \<Rightarrow> gb_state \<Rightarrow> fault + gb_state" where
  "gb_operation_complete r st =
     (case ops st r of
        None \<Rightarrow> Inl Bad_pointer
      | Some operation \<Rightarrow>
         (case callback operation of
            Some cb \<Rightarrow> Inr (st\<lparr>trace := trace st @ [Callback_called cb r]\<rparr>)
          | None \<Rightarrow> Inr (st\<lparr>trace := trace st @ [Complete_all r]\<rparr>)))"

text \<open>
  What the surroundings answer during one send: the result of \<open>greybus_submit_gbuf\<close>, the
  result of \<open>wait_for_completion_interruptible\<close> (zero once the operation has completed,
  negative when a signal interrupts the wait), and the result of \<open>greybus_kill_gbuf\<close>.
\<close>

record transport =
  submit_ret :: int
  wait_ret :: int
  kill_ret :: int

text \<open>
  Modelled from the spec: \<open>greybus_submit_gbuf\<close>, \<open>greybus_kill_gbuf\<close> and
  \<open>greybus_gbuf_finished\<close> are defined outside this file. The spec has submit and cancel
  hand the buffer to the transport and return a result; the calls are recorded.
\<close>

definition greybus_submit_gbuf :: "transport \<Rightarrow> nat option \<Rightarrow> gb_state \<Rightarrow> int \<times> gb_state" where
  "greybus_submit_gbuf env g st =
     (case g of
        None \<Rightarrow> (submit_ret env, st)
      | Some b \<Rightarrow> (submit_ret env, st\<lparr>trace := trace st @ [Gbuf_submitted b]\<rparr>))"

definition greybus_kill_gbuf :: "transport \<Rightarrow> nat option \<Rightarrow> gb_state \<Rightarrow> int \<times> gb_state" where
  "greybus_kill_gbuf env g st =
     (case g of
        None \<Rightarrow> (kill_ret env, st)
      | Some b \<Rightarrow> (kill_ret env, st\<lparr>trace := trace st @ [Gbuf_killed b]\<rparr>))"

definition greybus_gbuf_finished :: "nat option \<Rightarrow> gb_state \<Rightarrow> gb_state" where
  "greybus_gbuf_finished g st = st\<lparr>trace := trace st @ [Gbuf_finished g]\<rparr>"

definition gb_operation_wait :: "transport \<Rightarrow> nat \<Rightarrow> gb_state \<Rightarrow> fault + (int \<times> gb_state)" where
  "gb_operation_wait env r st =
     (case ops st r of
        None \<Rightarrow> Inl Bad_pointer
      | Some operation \<Rightarrow>
         (let ret = wait_ret env in
          if ret < 0
          then Inr (greybus_kill_gbuf env (request operation) st)
          else Inr (ret, st)))"

definition gb_operation_request_send ::
  "transport \<Rightarrow> nat \<Rightarrow> nat option \<Rightarrow> gb_state \<Rightarrow> fault + (int \<times> gb_state)" where
  "gb_operation_request_send env r cb st =
     (case ops st r of
        None \<Rightarrow> Inl Bad_pointer
      | Some operation \<Rightarrow>
         (case gb_operation_insert r (op_set r (\<lambda>x. x\<lparr>callback := cb\<rparr>) st) of
            Inl f \<Rightarrow> Inl f
          | Inr st1 \<Rightarrow>
             (case ops st1 r of
                None \<Rightarrow> Inl Bad_pointer
              | Some op1 \<Rightarrow>
                 (let (ret, st2) = greybus_submit_gbuf env (request op1) st1 in
                  if ret \<noteq> 0 then Inr (ret, st2)
                  else if cb = None then gb_operation_wait env r st2
                  else Inr (ret, st2)))))"

subsection \<open>Deferred work: request handling and completion\<close>

text \<open>
  The values of the \<open>GREYBUS_PROTOCOL_*\<close> constants are declared outside this file;
  they are a parameter.
\<close>

record greybus_protocols =
  GREYBUS_PROTOCOL_CONTROL :: nat
  GREYBUS_PROTOCOL_AP :: nat
  GREYBUS_PROTOCOL_GPIO :: nat
  GREYBUS_PROTOCOL_I2C :: nat
  GREYBUS_PROTOCOL_UART :: nat
  GREYBUS_PROTOCOL_HID :: nat
  GREYBUS_PROTOCOL_BATTERY :: nat
  GREYBUS_PROTOCOL_LED :: nat
  GREYBUS_PROTOCOL_VENDOR :: nat

type_synonym gb_operation_recv_handler = "nat \<Rightarrow> gb_state \<Rightarrow> gb_state"

definition gb_operation_recv_none :: gb_operation_recv_handler where
  "gb_operation_recv_none r st = st"

text \<open>
  The array \<open>gb_operation_recv_handlers\<close>, built as its designated initialisers build
  it: one more element than the largest index, null where nothing is given, a later
  initialiser for the same index replacing an earlier one.
\<close>

definition recv_handler_inits ::
  "greybus_protocols \<Rightarrow> (nat \<times> gb_operation_recv_handler option) list" where
  "recv_handler_inits p =
     [(GREYBUS_PROTOCOL_CONTROL p, None),
      (GREYBUS_PROTOCOL_AP p, None),
      (GREYBUS_PROTOCOL_GPIO p, None),
      (GREYBUS_PROTOCOL_I2C p, Some gb_operation_recv_none),
      (GREYBUS_PROTOCOL_UART p, None),
      (GREYBUS_PROTOCOL_HID p, None),
      (GREYBUS_PROTOCOL_BATTERY p, Some gb_operation_recv_none),
      (GREYBUS_PROTOCOL_LED p, None),
      (GREYBUS_PROTOCOL_VENDOR p, None)]"

definition gb_operation_recv_handlers ::
  "greybus_protocols \<Rightarrow> gb_operation_recv_handler option list" where
  "gb_operation_recv_handlers p =
     foldl (\<lambda>t (i, h). t[i := h])
       (replicate (Suc (foldr max (map fst (recv_handler_inits p)) 0)) None)
       (recv_handler_inits p)"

text \<open>
  \<open>gb_operation_request_handle\<close>. \<open>ARRAY_SIZE - 1\<close> is cast to \<open>u8\<close> before the
  comparison. With no handler the function reports the protocol, sets the result and
  completes the operation.
\<close>

definition gb_operation_request_handle ::
  "greybus_protocols \<Rightarrow> nat \<Rightarrow> gb_state \<Rightarrow> fault + gb_state" where
  "gb_operation_request_handle p r st =
     (case ops st r of
        None \<Rightarrow> Inl Bad_pointer
      | Some operation \<Rightarrow>
         (let proto = protocol (conn st);
              tbl = gb_operation_recv_handlers p;
              unrecognized =
                gb_operation_complete r
                  (op_set r (\<lambda>x. x\<lparr>result := Some GB_OP_PROTOCOL_BAD\<rparr>)
                     (gb_connection_err ''unrecognized protocol'' st))
          in if proto \<le> (of_nat (length tbl - 1) :: u8)
             then (if unat proto < length tbl
                   then (case tbl ! unat proto of
                           Some handler \<Rightarrow> Inr (handler r st)
                         | None \<Rightarrow> unrecognized)
                   else Inl Out_of_bounds_read)
             else unrecognized))"

definition gb_operation_recv_work ::
  "greybus_protocols \<Rightarrow> nat \<Rightarrow> gb_state \<Rightarrow> fault + gb_state" where
  "gb_operation_recv_work p r st =
     (case ops st r of
        None \<Rightarrow> Inl Bad_pointer
      | Some operation \<Rightarrow>
         (let incoming_request = (response operation = None) in
          case (if incoming_request then gb_operation_request_handle p r st else Inr st) of
            Inl f \<Rightarrow> Inl f
          | Inr st1 \<Rightarrow>
             (case gb_operation_complete r st1 of
                Inl f \<Rightarrow> Inl f
              | Inr st2 \<Rightarrow>
                 (case ops st2 r of
                    None \<Rightarrow> Inl Bad_pointer
                  | Some op2 \<Rightarrow>
                      if incoming_request
                      then Inr (greybus_gbuf_finished (request op2) st2)
                      else Inr (greybus_gbuf_finished (response op2) st2)))))"

text \<open>The worker of the receive workqueue takes the oldest queued operation and runs its work.\<close>

definition run_recv_workqueue :: "greybus_protocols \<Rightarrow> gb_state \<Rightarrow> fault + gb_state" where
  "run_recv_workqueue p st =
     (case recv_workqueue st of
        [] \<Rightarrow> Inr st
      | r # rs \<Rightarrow> gb_operation_recv_work p r (st\<lparr>recv_workqueue := rs\<rparr>))"

subsection \<open>The receive path\<close>

text \<open>
  The tail of \<open>gb_connection_operation_recv\<close>: \<open>memcpy\<close> of \<open>msg_size\<close> bytes into the
  chosen buffer, \<open>actual_length\<close>, \<open>queue_work\<close>.
\<close>

definition recv_copy :: "nat \<Rightarrow> nat \<Rightarrow> u8 list \<Rightarrow> nat \<Rightarrow> gb_state \<Rightarrow> fault + gb_state" where
  "recv_copy r g data msg_size st =
     (case gbufs st g of
        None \<Rightarrow> Inl Bad_pointer
      | Some gb \<Rightarrow>
         (case memcpy (transfer_buffer gb) data msg_size of
            Inl f \<Rightarrow> Inl f
          | Inr tb \<Rightarrow>
              Inr (st\<lparr>gbufs := (gbufs st)(g \<mapsto> gb\<lparr>transfer_buffer := tb,
                                                   actual_length := msg_size\<rparr>),
                      recv_workqueue := recv_workqueue st @ [r]\<rparr>)))"

text \<open>
  \<open>gb_connection_operation_recv\<close>. The block \<open>data\<close> has \<open>size\<close> bytes, so \<open>size\<close> is
  the length of the list. \<open>WARN_ON\<close> prints a warning and goes on.
\<close>

definition gb_connection_operation_recv :: "u8 list \<Rightarrow> gb_state \<Rightarrow> fault + gb_state" where
  "gb_connection_operation_recv data st =
     (if length data > GB_OPERATION_MESSAGE_SIZE_MAX
      then Inr (gb_connection_err ''message too big'' st)
      else
       (case hdr_size data of
          None \<Rightarrow> Inl Out_of_bounds_read
        | Some s \<Rightarrow>
           (let msg_size = unat s in
            case hdr_type data of
              None \<Rightarrow> Inl Out_of_bounds_read
            | Some type \<Rightarrow>
               if type AND GB_OPERATION_TYPE_RESPONSE \<noteq> 0
               then
                (case hdr_id data of
                   None \<Rightarrow> Inl Out_of_bounds_read
                 | Some i \<Rightarrow>
                    (case gb_operation_find st i of
                       None \<Rightarrow> Inr (gb_connection_err ''operation not found'' st)
                     | Some r \<Rightarrow>
                        (case gb_operation_remove r st of
                           Inl f \<Rightarrow> Inl f
                         | Inr st1 \<Rightarrow>
                            (case ops st1 r of
                               None \<Rightarrow> Inl Bad_pointer
                             | Some operation \<Rightarrow>
                                (case response operation of
                                   None \<Rightarrow> Inl Bad_pointer
                                 | Some g \<Rightarrow>
                                    (case gbufs st1 g of
                                       None \<Rightarrow> Inl Bad_pointer
                                     | Some gb \<Rightarrow>
                                        (let st2 = gbuf_set g
                                               (\<lambda>x. x\<lparr>status := Some GB_OP_SUCCESS\<rparr>) st1 in
                                         if length data > transfer_buffer_length gb
                                         then Inr (gb_connection_err
                                                     ''recv buffer too small'' st2)
                                         else recv_copy r g data msg_size st2)))))))
               else
                (case gb_operation_create type msg_size 0
                        (if msg_size \<noteq> length data
                         then st\<lparr>trace := trace st @ [Warn_on]\<rparr> else st) of
                   Inl f \<Rightarrow> Inl f
                 | Inr (None, st1) \<Rightarrow>
                     Inr (gb_connection_err ''can't create operation'' st1)
                 | Inr (Some r, st1) \<Rightarrow>
                    (case ops st1 r of
                       None \<Rightarrow> Inl Bad_pointer
                     | Some operation \<Rightarrow>
                        (case request operation of
                           None \<Rightarrow> Inl Bad_pointer
                         | Some g \<Rightarrow> recv_copy r g data msg_size st1))))))"

subsection \<open>Notions used to state the properties\<close>

text \<open>The outcome of the next allocation attempt under a script.\<close>

definition script_ok :: "bool list \<Rightarrow> bool" where
  "script_ok xs = (case xs of [] \<Rightarrow> True | b # bs \<Rightarrow> b)"

definition alloc_ok :: "gb_state \<Rightarrow> bool" where
  "alloc_ok st = script_ok (alloc_script st)"

text \<open>
  The bytes of a buffer of \<open>n\<close> bytes after \<open>gb_operation_gbuf_create\<close> has filled in
  the header.
\<close>

definition hdr_init :: "nat \<Rightarrow> u8 \<Rightarrow> u8 list" where
  "hdr_init n type =
     (replicate n 0)[0 := ucast (of_nat n :: u16), 1 := ucast (drop_bit 8 (of_nat n :: u16)),
                     2 := 0, 3 := 0, 4 := type]"

text \<open>
  The number of allocation attempts \<open>gb_operation_create\<close> can make: the operation and
  the request buffer, and the response buffer when a response size is given.
\<close>

definition create_attempts :: "nat \<Rightarrow> nat" where
  "create_attempts response_size = (if response_size = 0 then 2 else 3)"

text \<open>A connection with nothing on it, for the given protocol and allocation script.\<close>

definition idle_state :: "u8 \<Rightarrow> bool list \<Rightarrow> gb_state" where
  "idle_state proto script =
     \<lparr>conn = \<lparr>protocol = proto, op_cycle = 0, pending = RBT_Impl.Empty, operations = []\<rparr>,
      ops = Map.empty, gbufs = Map.empty, next_ref = 0, alloc_script = script,
      recv_workqueue = [], trace = []\<rparr>"

text \<open>The identifiers in the pending tree, in order.\<close>

definition registered_ids :: "gb_state \<Rightarrow> u16 list" where
  "registered_ids st = RBT_Impl.keys (pending (conn st))"

text \<open>The operations whose nodes are in the pending tree, in the order of the tree.\<close>

definition registered_ops :: "gb_state \<Rightarrow> nat list" where
  "registered_ops st = map snd (RBT_Impl.entries (pending (conn st)))"

text \<open>
  Every node of the pending tree belongs to a live operation, and the key the tree keeps
  for the node is the id of that operation.
\<close>

definition keys_match :: "gb_state \<Rightarrow> bool" where
  "keys_match st =
     list_all (\<lambda>(k, v). case ops st v of None \<Rightarrow> False | Some operation \<Rightarrow> op_id operation = k)
       (RBT_Impl.entries (pending (conn st)))"

text \<open>The request and the response buffer of an operation, when both references are live.\<close>

definition request_gbuf :: "gb_state \<Rightarrow> nat \<Rightarrow> gbuf option" where
  "request_gbuf st r =
     (case ops st r of
        None \<Rightarrow> None
      | Some operation \<Rightarrow> (case request operation of None \<Rightarrow> None | Some g \<Rightarrow> gbufs st g))"

definition response_gbuf :: "gb_state \<Rightarrow> nat \<Rightarrow> gbuf option" where
  "response_gbuf st r =
     (case ops st r of
        None \<Rightarrow> None
      | Some operation \<Rightarrow> (case response operation of None \<Rightarrow> None | Some g \<Rightarrow> gbufs st g))"

text \<open>
  Completion notifications of an operation in a trace: calls of its callback and
  \<open>complete_all\<close> on its completion.
\<close>

fun is_notification :: "nat \<Rightarrow> event \<Rightarrow> bool" where
  "is_notification r (Callback_called cb r') = (r' = r)"
| "is_notification r (Complete_all r') = (r' = r)"
| "is_notification r e = False"

definition notifications :: "nat \<Rightarrow> gb_state \<Rightarrow> nat" where
  "notifications r st = length (filter (is_notification r) (trace st))"

text \<open>A frame arrives and the worker then runs the work it queued.\<close>

definition recv_then_work :: "greybus_protocols \<Rightarrow> u8 list \<Rightarrow> gb_state \<Rightarrow> fault + gb_state" where
  "recv_then_work p data st =
     (case gb_connection_operation_recv data st of
        Inl f \<Rightarrow> Inl f
      | Inr st1 \<Rightarrow> run_recv_workqueue p st1)"

text \<open>What a run leaves behind, read off its result; \<open>None\<close> when the run faults.\<close>

definition notifications_after :: "nat \<Rightarrow> fault + gb_state \<Rightarrow> nat option" where
  "notifications_after r res =
     (case res of Inl f \<Rightarrow> None | Inr st \<Rightarrow> Some (notifications r st))"

definition registered_after :: "fault + gb_state \<Rightarrow> u16 list option" where
  "registered_after res = (case res of Inl f \<Rightarrow> None | Inr st \<Rightarrow> Some (registered_ids st))"

definition request_capacity_after :: "nat \<Rightarrow> fault + gb_state \<Rightarrow> nat option" where
  "request_capacity_after r res =
     (case res of
        Inl f \<Rightarrow> None
      | Inr st \<Rightarrow> map_option transfer_buffer_length (request_gbuf st r))"

definition created_buffer :: "fault + (nat option \<times> gb_state) \<Rightarrow> u8 list option" where
  "created_buffer res =
     (case res of
        Inr (Some g, st) \<Rightarrow> map_option transfer_buffer (gbufs st g)
      | _ \<Rightarrow> None)"

definition created_ref :: "fault + (nat option \<times> gb_state) \<Rightarrow> nat option" where
  "created_ref res = (case res of Inr (Some r, st) \<Rightarrow> Some r | _ \<Rightarrow> None)"

definition returned :: "fault + (int \<times> gb_state) \<Rightarrow> int option" where
  "returned res = (case res of Inl f \<Rightarrow> None | Inr (ret, st) \<Rightarrow> Some ret)"

definition trace_after :: "fault + (int \<times> gb_state) \<Rightarrow> event list" where
  "trace_after res = (case res of Inl f \<Rightarrow> [] | Inr (ret, st) \<Rightarrow> trace st)"

subsection \<open>Concrete states and frames\<close>

text \<open>A state with one operation object just allocated (reference 0) and no buffer.\<close>

definition ex_allocated :: gb_state where
  "ex_allocated = (idle_state 0 [])\<lparr>ops := [0 \<mapsto> zeroed_operation], next_ref := 1\<rparr>"

text \<open>
  The state after \<open>gb_operation_create\<close> with type 1, request size 8 and response size 8
  on an idle connection: operation 0 with request buffer 1 and response buffer 2, both of
  16 bytes.
\<close>

definition ex_created :: gb_state where
  "ex_created =
     \<lparr>conn = \<lparr>protocol = 0, op_cycle = 0, pending = RBT_Impl.Empty, operations = [0]\<rparr>,
      ops = [0 \<mapsto> \<lparr>request = Some 1, response = Some 2, op_id = 0, result = None,
                    callback = None\<rparr>],
      gbufs = [1 \<mapsto> \<lparr>transfer_buffer = [16, 0, 0, 0, 1, 0, 0, 0, 0, 0, 0, 0, 0, 0, 0, 0],
                      transfer_buffer_length = 16, actual_length = 8, status = None,
                      gbuf_context = 0, data_out = True\<rparr>,
               2 \<mapsto> \<lparr>transfer_buffer = [16, 0, 0, 0, 0x81, 0, 0, 0, 0, 0, 0, 0, 0, 0, 0, 0],
                      transfer_buffer_length = 16, actual_length = 0, status = None,
                      gbuf_context = 0, data_out = False\<rparr>],
      next_ref = 3, alloc_script = [], recv_workqueue = [], trace = []\<rparr>"

text \<open>
  The state after that operation has been sent with callback 7: it has identifier 1 and is
  in the pending tree.
\<close>

definition ex_pending :: gb_state where
  "ex_pending =
     \<lparr>conn = \<lparr>protocol = 0, op_cycle = 1,
              pending = Branch RBT_Impl.B RBT_Impl.Empty 1 0 RBT_Impl.Empty,
              operations = [0]\<rparr>,
      ops = [0 \<mapsto> \<lparr>request = Some 1, response = Some 2, op_id = 1, result = None,
                    callback = Some 7\<rparr>],
      gbufs = [1 \<mapsto> \<lparr>transfer_buffer = [16, 0, 1, 0, 1, 0, 0, 0, 0, 0, 0, 0, 0, 0, 0, 0],
                      transfer_buffer_length = 16, actual_length = 8, status = None,
                      gbuf_context = 0, data_out = True\<rparr>,
               2 \<mapsto> \<lparr>transfer_buffer = [16, 0, 0, 0, 0x81, 0, 0, 0, 0, 0, 0, 0, 0, 0, 0, 0],
                      transfer_buffer_length = 16, actual_length = 0, status = None,
                      gbuf_context = 0, data_out = False\<rparr>],
      next_ref = 3, alloc_script = [], recv_workqueue = [],
      trace = [Gbuf_submitted 1]\<rparr>"

text \<open>
  Operations 0, 3 and 6 are pending with identifiers 1, 2 and 3, and operation 9 has been
  created and not yet sent. Requests carry no payload (8 bytes), response buffers have 9
  bytes.
\<close>

definition ex_three_pending :: gb_state where
  "ex_three_pending =
     \<lparr>conn = \<lparr>protocol = 0, op_cycle = 3,
              pending = Branch RBT_Impl.B
                          (Branch RBT_Impl.R RBT_Impl.Empty 1 0 RBT_Impl.Empty) 2 3
                          (Branch RBT_Impl.R RBT_Impl.Empty 3 6 RBT_Impl.Empty),
              operations = [0, 3, 6, 9]\<rparr>,
      ops = [0 \<mapsto> \<lparr>request = Some 1, response = Some 2, op_id = 1, result = None,
                    callback = Some 7\<rparr>,
             3 \<mapsto> \<lparr>request = Some 4, response = Some 5, op_id = 2, result = None,
                    callback = Some 7\<rparr>,
             6 \<mapsto> \<lparr>request = Some 7, response = Some 8, op_id = 3, result = None,
                    callback = Some 7\<rparr>,
             9 \<mapsto> \<lparr>request = Some 10, response = Some 11, op_id = 0, result = None,
                    callback = None\<rparr>],
      gbufs = [1 \<mapsto> \<lparr>transfer_buffer = [8, 0, 1, 0, 1, 0, 0, 0],
                      transfer_buffer_length = 8, actual_length = 0, status = None,
                      gbuf_context = 0, data_out = True\<rparr>,
               2 \<mapsto> \<lparr>transfer_buffer = [9, 0, 0, 0, 0x81, 0, 0, 0, 0],
                      transfer_buffer_length = 9, actual_length = 0, status = None,
                      gbuf_context = 0, data_out = False\<rparr>,
               4 \<mapsto> \<lparr>transfer_buffer = [8, 0, 2, 0, 1, 0, 0, 0],
                      transfer_buffer_length = 8, actual_length = 0, status = None,
                      gbuf_context = 3, data_out = True\<rparr>,
               5 \<mapsto> \<lparr>transfer_buffer = [9, 0, 0, 0, 0x81, 0, 0, 0, 0],
                      transfer_buffer_length = 9, actual_length = 0, status = None,
                      gbuf_context = 3, data_out = False\<rparr>,
               7 \<mapsto> \<lparr>transfer_buffer = [8, 0, 3, 0, 1, 0, 0, 0],
                      transfer_buffer_length = 8, actual_length = 0, status = None,
                      gbuf_context = 6, data_out = True\<rparr>,
               8 \<mapsto> \<lparr>transfer_buffer = [9, 0, 0, 0, 0x81, 0, 0, 0, 0],
                      transfer_buffer_length = 9, actual_length = 0, status = None,
                      gbuf_context = 6, data_out = False\<rparr>,
               10 \<mapsto> \<lparr>transfer_buffer = [8, 0, 0, 0, 1, 0, 0, 0],
                       transfer_buffer_length = 8, actual_length = 0, status = None,
                       gbuf_context = 9, data_out = True\<rparr>,
               11 \<mapsto> \<lparr>transfer_buffer = [9, 0, 0, 0, 0x81, 0, 0, 0, 0],
                       transfer_buffer_length = 9, actual_length = 0, status = None,
                       gbuf_context = 9, data_out = False\<rparr>],
      next_ref = 12, alloc_script = [], recv_workqueue = [],
      trace = [Gbuf_submitted 1, Gbuf_submitted 4, Gbuf_submitted 7]\<rparr>"

text \<open>
  The same connection later: operation 0 is still pending with identifier 1, the others
  have gone, and the counter has run on to \<open>0xFFFF\<close>, so the next identifier it gives is
  1 again. Operation 9 has been created and not yet sent.
\<close>

definition ex_wrapped :: gb_state where
  "ex_wrapped =
     \<lparr>conn = \<lparr>protocol = 0, op_cycle = 0xFFFF,
              pending = Branch RBT_Impl.B RBT_Impl.Empty 1 0 RBT_Impl.Empty,
              operations = [0, 9]\<rparr>,
      ops = [0 \<mapsto> \<lparr>request = Some 1, response = Some 2, op_id = 1, result = None,
                    callback = Some 7\<rparr>,
             9 \<mapsto> \<lparr>request = Some 10, response = Some 11, op_id = 0, result = None,
                    callback = None\<rparr>],
      gbufs = [1 \<mapsto> \<lparr>transfer_buffer = [8, 0, 1, 0, 1, 0, 0, 0],
                      transfer_buffer_length = 8, actual_length = 0, status = None,
                      gbuf_context = 0, data_out = True\<rparr>,
               2 \<mapsto> \<lparr>transfer_buffer = [9, 0, 0, 0, 0x81, 0, 0, 0, 0],
                      transfer_buffer_length = 9, actual_length = 0, status = None,
                      gbuf_context = 0, data_out = False\<rparr>,
               10 \<mapsto> \<lparr>transfer_buffer = [8, 0, 0, 0, 1, 0, 0, 0],
                       transfer_buffer_length = 8, actual_length = 0, status = None,
                       gbuf_context = 9, data_out = True\<rparr>,
               11 \<mapsto> \<lparr>transfer_buffer = [9, 0, 0, 0, 0x81, 0, 0, 0, 0],
                       transfer_buffer_length = 9, actual_length = 0, status = None,
                       gbuf_context = 9, data_out = False\<rparr>],
      next_ref = 12, alloc_script = [], recv_workqueue = [],
      trace = [Gbuf_submitted 1]\<rparr>"

text \<open>What the transport answers when a send goes through and nothing interrupts it.\<close>

definition ex_transport_ok :: transport where
  "ex_transport_ok = \<lparr>submit_ret = 0, wait_ret = 0, kill_ret = 0\<rparr>"

text \<open>
  A send whose wait is interrupted (\<open>-ERESTARTSYS\<close> is \<open>-512\<close>) and whose cancellation
  succeeds.
\<close>

definition ex_transport_interrupted :: transport where
  "ex_transport_interrupted = \<lparr>submit_ret = 0, wait_ret = - 512, kill_ret = 0\<rparr>"

text \<open>
  Frames. A request of type 1 with no payload (declared size 8, 8 bytes). A request of 8
  bytes whose header declares 4097 bytes. A response to operation 1 of 24 bytes, declared
  size 24. A response to operation 1 of 16 bytes, declared size 16.
\<close>

definition ex_request :: "u8 list" where
  "ex_request = [8, 0, 0, 0, 1, 0, 0, 0]"

definition ex_request_declared_4097 :: "u8 list" where
  "ex_request_declared_4097 = [1, 16, 0, 0, 1, 0, 0, 0]"

definition ex_response_24 :: "u8 list" where
  "ex_response_24 = [24, 0, 1, 0, 0x81, 0, 0, 0,
                     1, 2, 3, 4, 5, 6, 7, 8, 9, 10, 11, 12, 13, 14, 15, 16]"

definition ex_response_16 :: "u8 list" where
  "ex_response_16 = [16, 0, 1, 0, 0x81, 0, 0, 0, 1, 2, 3, 4, 5, 6, 7, 8]"

text \<open>
  A numbering of the protocols: control 0, AP 1, GPIO 2, I2C 3, UART 4, HID 5, battery 8,
  LED 14, vendor 255.
\<close>

definition ex_protocols :: greybus_protocols where
  "ex_protocols =
     \<lparr>GREYBUS_PROTOCOL_CONTROL = 0, GREYBUS_PROTOCOL_AP = 1, GREYBUS_PROTOCOL_GPIO = 2,
      GREYBUS_PROTOCOL_I2C = 3, GREYBUS_PROTOCOL_UART = 4, GREYBUS_PROTOCOL_HID = 5,
      GREYBUS_PROTOCOL_BATTERY = 8, GREYBUS_PROTOCOL_LED = 14,
      GREYBUS_PROTOCOL_VENDOR = 255\<rparr>"

section \<open>Properties\<close>

subsection \<open>Header fields and allocation\<close>

lemma le16_bytes:
  "ucast (ucast v :: u8) OR push_bit 8 (ucast (ucast (drop_bit 8 v) :: u8)) = (v :: u16)"
  by (rule bit_word_eqI) (auto simp: bit_simps)

lemma le16_load_store: "le16_store buf off v = Some b \<Longrightarrow> le16_load b off = Some v"
  by (auto simp: le16_store_def le16_load_def le16_bytes split: if_splits)

lemma alloc_attempt_eq:
  "alloc_attempt st = (alloc_ok st, st\<lparr>alloc_script := tl (alloc_script st)\<rparr>)"
  by (simp add: alloc_attempt_def alloc_ok_def script_ok_def split: list.splits)

lemma take2_script:
  "False \<in> set (take 2 xs) \<longleftrightarrow> \<not> script_ok xs \<or> \<not> script_ok (tl xs)"
  by (cases xs; cases "tl xs") (auto simp: script_ok_def numeral_2_eq_2)

lemma take3_script:
  "False \<in> set (take 3 xs) \<longleftrightarrow>
     \<not> script_ok xs \<or> \<not> script_ok (tl xs) \<or> \<not> script_ok (tl (tl xs))"
  by (cases xs; cases "tl xs"; cases "tl (tl xs)") (auto simp: script_ok_def numeral_3_eq_3)

text \<open>What \<open>gb_operation_gbuf_create\<close> returns when the size does not wrap.\<close>

lemma gbuf_create_eq:
  assumes "ops st r \<noteq> None" "sz + sizeof_hdr < 2 ^ 64"
  shows "gb_operation_gbuf_create r type sz out st =
     (if alloc_ok st
      then Inr (Some (next_ref st),
                st\<lparr>alloc_script := tl (alloc_script st),
                   gbufs := (gbufs st)(next_ref st \<mapsto>
                     \<lparr>transfer_buffer = hdr_init (sz + sizeof_hdr) type,
                      transfer_buffer_length = sz + sizeof_hdr,
                      actual_length = 0, status = None, gbuf_context = r, data_out = out\<rparr>),
                   next_ref := next_ref st + 1\<rparr>)
      else Inr (None, st\<lparr>alloc_script := tl (alloc_script st)\<rparr>))"
  using assms
  by (auto simp add: gb_operation_gbuf_create_def greybus_alloc_gbuf_def alloc_attempt_eq
      le16_store_def u8_store_def gbuf_set_def hdr_init_def sizeof_hdr_def Let_def)

text \<open>What \<open>gb_operation_create\<close> returns for an incoming request (response size 0).\<close>

lemma create_incoming_eq:
  assumes "request_size + sizeof_hdr < 2 ^ 64"
  shows "gb_operation_create type request_size 0 st =
     (if \<not> script_ok (alloc_script st)
      then Inr (None, st\<lparr>alloc_script := tl (alloc_script st)\<rparr>)
      else if \<not> script_ok (tl (alloc_script st))
      then Inr (None, st\<lparr>alloc_script := tl (tl (alloc_script st)),
                         ops := (ops st)(next_ref st := None),
                         next_ref := next_ref st + 1\<rparr>)
      else Inr (Some (next_ref st),
                st\<lparr>conn := (conn st)\<lparr>operations := operations (conn st) @ [next_ref st]\<rparr>,
                   alloc_script := tl (tl (alloc_script st)),
                   ops := (ops st)(next_ref st \<mapsto>
                            zeroed_operation\<lparr>request := Some (next_ref st + 1)\<rparr>),
                   gbufs := (gbufs st)(next_ref st + 1 \<mapsto>
                     \<lparr>transfer_buffer = hdr_init (request_size + sizeof_hdr) type,
                      transfer_buffer_length = request_size + sizeof_hdr,
                      actual_length = request_size, status = None,
                      gbuf_context = next_ref st, data_out = False\<rparr>),
                   next_ref := next_ref st + 2\<rparr>))"
  using assms
  by (simp add: gb_operation_create_def kzalloc_operation_def alloc_attempt_eq alloc_ok_def
      gbuf_create_eq kfree_operation_def op_set_def gbuf_set_def create_finish_def Let_def
      zeroed_operation_def)

text \<open>And for an outgoing request (response size not 0).\<close>

lemma create_outgoing_eq:
  assumes "request_size + sizeof_hdr < 2 ^ 64" "response_size + sizeof_hdr < 2 ^ 64"
    and "response_size \<noteq> 0"
  shows "gb_operation_create type request_size response_size st =
     (if \<not> script_ok (alloc_script st)
      then Inr (None, st\<lparr>alloc_script := tl (alloc_script st)\<rparr>)
      else if \<not> script_ok (tl (alloc_script st))
      then Inr (None, st\<lparr>alloc_script := tl (tl (alloc_script st)),
                         ops := (ops st)(next_ref st := None),
                         next_ref := next_ref st + 1\<rparr>)
      else if \<not> script_ok (tl (tl (alloc_script st)))
      then Inr (None, st\<lparr>alloc_script := tl (tl (tl (alloc_script st))),
                         ops := (ops st)(next_ref st := None),
                         gbufs := (gbufs st)(next_ref st + 1 := None),
                         next_ref := next_ref st + 2\<rparr>)
      else Inr (Some (next_ref st),
                st\<lparr>conn := (conn st)\<lparr>operations := operations (conn st) @ [next_ref st]\<rparr>,
                   alloc_script := tl (tl (tl (alloc_script st))),
                   ops := (ops st)(next_ref st \<mapsto>
                            zeroed_operation\<lparr>request := Some (next_ref st + 1),
                                              response := Some (next_ref st + 2)\<rparr>),
                   gbufs := (gbufs st)(next_ref st + 1 \<mapsto>
                     \<lparr>transfer_buffer = hdr_init (request_size + sizeof_hdr) type,
                      transfer_buffer_length = request_size + sizeof_hdr,
                      actual_length = request_size, status = None,
                      gbuf_context = next_ref st, data_out = True\<rparr>,
                     next_ref st + 2 \<mapsto>
                     \<lparr>transfer_buffer = hdr_init (response_size + sizeof_hdr)
                                           (type OR GB_OPERATION_TYPE_RESPONSE),
                      transfer_buffer_length = response_size + sizeof_hdr,
                      actual_length = 0, status = None,
                      gbuf_context = next_ref st, data_out = False\<rparr>),
                   next_ref := next_ref st + 3\<rparr>))"
  using assms
  by (simp add: gb_operation_create_def kzalloc_operation_def alloc_attempt_eq alloc_ok_def
      gbuf_create_eq kfree_operation_def op_set_def gbuf_set_def create_finish_def Let_def
      zeroed_operation_def greybus_free_gbuf_def)

subsection \<open>Creating an operation\<close>

text \<open>
  C6. \<open>gb_operation_create\<close>, on a state whose next references are unused and for sizes
  that fit a \<open>size_t\<close> with the header added, returns normally. It returns a null pointer
  exactly when one of the allocation attempts it makes fails (the operation object, the
  request buffer, and the response buffer when the response size is not zero). In that
  case the live operations, the live buffers and the connection, with its operation list,
  are what they were: everything allocated on the way has been released and nothing has
  been registered. Otherwise the new operation has a live request buffer, has a live
  response buffer if and only if the response size is not zero, and has been added at the
  tail of the connection's operation list.
\<close>

theorem create_allocation:
  assumes fresh: "ops st (next_ref st) = None" "gbufs st (Suc (next_ref st)) = None"
    and nowrap: "request_size + sizeof_hdr < 2 ^ 64" "response_size + sizeof_hdr < 2 ^ 64"
  shows "\<exists>res st'. gb_operation_create type request_size response_size st = Inr (res, st') \<and>
     (res = None \<longleftrightarrow> False \<in> set (take (create_attempts response_size) (alloc_script st))) \<and>
     (res = None \<longrightarrow> ops st' = ops st \<and> gbufs st' = gbufs st \<and> conn st' = conn st) \<and>
     (\<forall>r. res = Some r \<longrightarrow>
        (\<exists>operation rq. ops st' r = Some operation \<and> request operation = Some rq \<and>
           gbufs st' rq \<noteq> None \<and>
           (response operation \<noteq> None \<longleftrightarrow> response_size \<noteq> 0) \<and>
           (\<forall>rs. response operation = Some rs \<longrightarrow> gbufs st' rs \<noteq> None \<and> rs \<noteq> rq) \<and>
           operations (conn st') = operations (conn st) @ [r]))"
proof (cases "response_size = 0")
  case True
  with fresh nowrap show ?thesis
    by (simp add: create_incoming_eq create_attempts_def take2_script zeroed_operation_def
        fun_upd_idem)
next
  case False
  with fresh nowrap show ?thesis
    by (simp add: create_outgoing_eq create_attempts_def take3_script zeroed_operation_def
        fun_upd_idem)
qed

text \<open>
  At concrete inputs. The operation and the request buffer are allocated, the response
  buffer is not: the call returns a null pointer and leaves no operation and no buffer.
  Every allocation succeeds: the call returns an operation with both buffers, on the list.
\<close>

theorem create_allocation_witness:
  "ops (idle_state 0 [True, True, False]) (next_ref (idle_state 0 [True, True, False])) = None \<and>
   gbufs (idle_state 0 [True, True, False])
     (Suc (next_ref (idle_state 0 [True, True, False]))) = None \<and>
   (16::nat) + sizeof_hdr < 2 ^ 64 \<and>
   (\<exists>st'. gb_operation_create 1 16 16 (idle_state 0 [True, True, False]) = Inr (None, st') \<and>
      ops st' = Map.empty \<and> gbufs st' = Map.empty \<and> operations (conn st') = []) \<and>
   (\<exists>r st' operation. gb_operation_create 1 16 16 (idle_state 0 []) = Inr (Some r, st') \<and>
      ops st' r = Some operation \<and> request operation \<noteq> None \<and>
      response operation \<noteq> None \<and> operations (conn st') = [r])"
  using create_allocation [of "idle_state 0 [True, True, False]" 16 16 1]
    create_allocation [of "idle_state 0 []" 16 16 1]
  by (auto simp add: idle_state_def sizeof_hdr_def create_attempts_def)

subsection \<open>The header of a new buffer\<close>

lemma hdr_init_fields:
  assumes "5 \<le> n"
  shows "hdr_size (hdr_init n t) = Some (of_nat n)" and "hdr_id (hdr_init n t) = Some 0"
    and "hdr_type (hdr_init n t) = Some t" and "length (hdr_init n t) = n"
  using assms
  by (simp_all add: hdr_init_def hdr_size_def hdr_id_def hdr_type_def le16_load_def u8_load_def
      le16_bytes)

text \<open>
  C8 (amended). For every payload size with header size plus payload size below \<open>2 ^ 16\<close>
  and every type byte, when the allocation succeeds \<open>gb_operation_gbuf_create\<close> returns a
  buffer whose header has a size field equal to the header size plus the payload size, an id
  field of zero and a type field equal to the given type.
\<close>

theorem gbuf_create_header:
  assumes "ops st r \<noteq> None" and "alloc_ok st" and "sz + sizeof_hdr < 2 ^ 16"
  shows "\<exists>g st' gb. gb_operation_gbuf_create r type sz out st = Inr (Some g, st') \<and>
           gbufs st' g = Some gb \<and>
           map_option unat (hdr_size (transfer_buffer gb)) = Some (sz + sizeof_hdr) \<and>
           hdr_id (transfer_buffer gb) = Some 0 \<and>
           hdr_type (transfer_buffer gb) = Some type \<and>
           transfer_buffer_length gb = sz + sizeof_hdr"
proof -
  define n where "n = sz + sizeof_hdr"
  from assms(3) have small: "sz + sizeof_hdr < 2 ^ 64" by simp
  have five: "5 \<le> n" by (simp add: n_def sizeof_hdr_def)
  from assms(3) have "n mod 2 ^ 16 = n" by (simp add: n_def)
  then have u: "unat (of_nat n :: u16) = n"
    by (simp only: unat_of_nat) simp
  have "gb_operation_gbuf_create r type sz out st =
          Inr (Some (next_ref st),
               st\<lparr>alloc_script := tl (alloc_script st),
                  gbufs := (gbufs st)(next_ref st \<mapsto>
                    \<lparr>transfer_buffer = hdr_init n type, transfer_buffer_length = n,
                     actual_length = 0, status = None, gbuf_context = r, data_out = out\<rparr>),
                  next_ref := next_ref st + 1\<rparr>)"
    using gbuf_create_eq [OF assms(1) small, of type out] assms(2) unfolding n_def by simp
  with u show ?thesis
    unfolding n_def [symmetric] by (simp add: hdr_init_fields [OF five])
qed

text \<open>At a concrete input: payload size 8, type 1.\<close>

theorem gbuf_create_header_witness:
  "ops ex_allocated 0 \<noteq> None \<and> alloc_ok ex_allocated \<and> (8::nat) + sizeof_hdr < 2 ^ 16 \<and>
   (\<exists>g st' gb. gb_operation_gbuf_create 0 1 8 True ex_allocated = Inr (Some g, st') \<and>
      gbufs st' g = Some gb \<and>
      map_option unat (hdr_size (transfer_buffer gb)) = Some 16 \<and>
      hdr_id (transfer_buffer gb) = Some 0 \<and>
      hdr_type (transfer_buffer gb) = Some 1 \<and>
      transfer_buffer_length gb = 16)"
  using gbuf_create_header [of ex_allocated 0 8 1 True]
  by (simp add: ex_allocated_def idle_state_def alloc_ok_def script_ok_def sizeof_hdr_def)

text \<open>
  C8 as stated fails for a payload of 65528 bytes: header and payload are 65536 bytes, and
  the 16-bit size field of the buffer holds 0.
\<close>

theorem gbuf_create_header_counterexample:
  "map_option hdr_size (created_buffer (gb_operation_gbuf_create 0 1 65528 True ex_allocated))
     = Some (Some 0) \<and>
   unat (0 :: u16) \<noteq> 65528 + sizeof_hdr"
proof -
  have "hdr_size (hdr_init 65536 1) = Some (of_nat 65536)"
    by (rule hdr_init_fields) simp
  then show ?thesis
    by (simp add: gbuf_create_eq created_buffer_def ex_allocated_def idle_state_def alloc_ok_def
        script_ok_def sizeof_hdr_def)
qed

subsection \<open>The concrete states are reached by the code\<close>

lemma hdr_init_16_request: "hdr_init 16 1 = [16, 0, 0, 0, 1, 0, 0, 0, 0, 0, 0, 0, 0, 0, 0, 0]"
  by code_simp

lemma hdr_init_16_response:
  "hdr_init 16 0x81 = [16, 0, 0, 0, 0x81, 0, 0, 0, 0, 0, 0, 0, 0, 0, 0, 0]"
  by code_simp

lemma ex_created_reached:
  "gb_operation_create 1 8 8 (idle_state 0 []) = Inr (Some 0, ex_created)"
  apply (simp add: create_outgoing_eq sizeof_hdr_def idle_state_def script_ok_def ex_created_def
      hdr_init_16_request hdr_init_16_response zeroed_operation_def GB_OPERATION_TYPE_RESPONSE_def)
  apply (simp add: numeral_2_eq_2 numeral_3_eq_3)
  done

lemma rbt_insert_Empty:
  "rbt_insert k v RBT_Impl.Empty = Branch RBT_Impl.B RBT_Impl.Empty k v RBT_Impl.Empty"
  by (simp add: rbt_insert_def rbt_insert_with_key_def)

lemma ex_pending_reached:
  "gb_operation_request_send ex_transport_ok 0 (Some 7) ex_created = Inr (0, ex_pending)"
  apply (simp add: gb_operation_request_send_def gb_operation_insert_def op_set_def
      gb_connection_operation_id_def le16_store_def greybus_submit_gbuf_def
      ex_transport_ok_def ex_created_def ex_pending_def rbt_insert_Empty)
  apply (rule ext)
  apply simp
  done

subsection \<open>The pending tree\<close>

lemma find_walk_lookup: "find_walk t i = rbt_lookup t i"
  by (induction t) auto

lemma find_walk_absent: "i \<notin> set (RBT_Impl.keys t) \<Longrightarrow> find_walk t i = None"
  by (induction t) auto

text \<open>
  The loop of \<open>gb_operation_insert\<close> on a tree whose keys are the ids of its operations.
  When the operation being inserted is not in the tree and its new id is not found, the loop
  exits. When the new id is found, the loop never exits.
\<close>

lemma insert_walk_exits:
  "list_all (\<lambda>(k, v). v \<noteq> r \<and> (case m v of None \<Rightarrow> False | Some operation \<Rightarrow> op_id operation = k))
     (RBT_Impl.entries t) \<Longrightarrow>
   find_walk t i = None \<Longrightarrow> insert_walk (m(r \<mapsto> x)) t i = None"
  by (induction t) (auto split: option.splits if_splits)

lemma insert_walk_spins:
  "list_all (\<lambda>(k, v). case m v of None \<Rightarrow> False | Some operation \<Rightarrow> op_id operation = k)
     (RBT_Impl.entries t) \<Longrightarrow>
   op_id x = i \<Longrightarrow> find_walk t i \<noteq> None \<Longrightarrow>
   insert_walk (m(r \<mapsto> x)) t i = Some No_return"
  by (induction t) (auto split: option.splits if_splits)

text \<open>
  On an ordered tree \<open>keys_match\<close> says the same of every key and node the tree maps.
\<close>

lemma keys_match_lookup:
  assumes "rbt_sorted (pending (conn st))"
  shows "keys_match st \<longleftrightarrow>
     (\<forall>k v. rbt_lookup (pending (conn st)) k = Some v \<longrightarrow>
        (\<exists>operation. ops st v = Some operation \<and> op_id operation = k))"
  unfolding keys_match_def list_all_iff rbt_lookup_in_tree [OF assms]
  by (fastforce split: option.splits)

text \<open>
  C7 (amended). On a connection whose pending tree is a red-black tree (its identifiers are
  then strictly increasing in order, so pairwise distinct): inserting an operation that is
  not already in the tree, whose request buffer can hold the identifier, when the tree's
  keys are the ids of its operations and the identifier the connection assigns is held by
  no pending operation, returns, and \<open>gb_operation_find\<close> with that identifier then
  gives the operation; removing an operation that is found under its identifier returns,
  and \<open>gb_operation_find\<close> with that identifier then gives nothing; and
  \<open>gb_operation_find\<close> with an identifier that is not in the tree gives nothing.
\<close>

theorem registry_insert_find_remove:
  assumes tree: "is_rbt (pending (conn st))"
  shows "(\<forall>r operation rq g.
            ops st r = Some operation \<and> request operation = Some rq \<and> gbufs st rq = Some g \<and>
            4 \<le> length (transfer_buffer g) \<and> keys_match st \<and>
            r \<notin> set (registered_ops st) \<and>
            fst (gb_connection_operation_id (conn st)) \<notin> set (registered_ids st) \<longrightarrow>
            (\<exists>st' op'. gb_operation_insert r st = Inr st' \<and> ops st' r = Some op' \<and>
               op_id op' = fst (gb_connection_operation_id (conn st)) \<and>
               gb_operation_find st' (op_id op') = Some r \<and>
               is_rbt (pending (conn st')) \<and> keys_match st'))
       \<and> (\<forall>r operation.
            ops st r = Some operation \<and> gb_operation_find st (op_id operation) = Some r \<longrightarrow>
            (\<exists>st'. gb_operation_remove r st = Inr st' \<and>
               gb_operation_find st' (op_id operation) = None \<and> is_rbt (pending (conn st'))))
       \<and> (\<forall>i. i \<notin> set (registered_ids st) \<longrightarrow> gb_operation_find st i = None)"
proof (intro conjI allI impI)
  fix i assume "i \<notin> set (registered_ids st)"
  then show "gb_operation_find st i = None"
    by (simp add: gb_operation_find_def registered_ids_def find_walk_absent)
next
  fix r operation
  assume a: "ops st r = Some operation \<and> gb_operation_find st (op_id operation) = Some r"
  then have "rbt_lookup (pending (conn st)) (op_id operation) = Some r"
    by (simp add: gb_operation_find_def find_walk_lookup)
  with a tree show "\<exists>st'. gb_operation_remove r st = Inr st' \<and>
      gb_operation_find st' (op_id operation) = None \<and> is_rbt (pending (conn st'))"
    by (simp add: gb_operation_remove_def gb_operation_find_def find_walk_lookup
        rbt_lookup_rbt_delete)
next
  fix r operation rq g
  let ?i = "fst (gb_connection_operation_id (conn st))"
  let ?t = "pending (conn st)"
  assume a: "ops st r = Some operation \<and> request operation = Some rq \<and> gbufs st rq = Some g \<and>
            4 \<le> length (transfer_buffer g) \<and> keys_match st \<and>
            r \<notin> set (registered_ops st) \<and> ?i \<notin> set (registered_ids st)"
  let ?x = "operation\<lparr>op_id := ?i\<rparr>"
  have sorted: "rbt_sorted ?t" using tree by (simp add: is_rbt_def)
  from a have nofind: "find_walk ?t ?i = None"
    by (simp add: registered_ids_def find_walk_absent)
  from a have "list_all (\<lambda>(k, v). v \<noteq> r \<and>
                 (case ops st v of None \<Rightarrow> False | Some operation \<Rightarrow> op_id operation = k))
                 (RBT_Impl.entries ?t)"
    by (force simp add: keys_match_def registered_ops_def list_all_iff)
  from insert_walk_exits [OF this nofind]
  have walk: "insert_walk ((ops st)(r \<mapsto> ?x)) ?t ?i = None" .
  have pend: "pending (snd (gb_connection_operation_id (conn st))) = ?t"
    by (simp add: gb_connection_operation_id_def Let_def)
  define st' where "st' = st\<lparr>conn := (snd (gb_connection_operation_id (conn st)))
                                 \<lparr>pending := rbt_insert ?i r ?t\<rparr>,
                             ops := (ops st)(r \<mapsto> ?x),
                             gbufs := (gbufs st)(rq \<mapsto> g\<lparr>transfer_buffer :=
                               (transfer_buffer g)[2 := ucast ?i, 3 := ucast (drop_bit 8 ?i)]\<rparr>)\<rparr>"
  from a walk pend have ins: "gb_operation_insert r st = Inr st'"
    by (simp add: gb_operation_insert_def le16_store_def split_beta Let_def st'_def
        registered_ops_def)
  have look: "rbt_lookup (pending (conn st')) = (rbt_lookup ?t)(?i \<mapsto> r)"
    using tree by (simp add: st'_def rbt_lookup_rbt_insert)
  have tree': "is_rbt (pending (conn st'))"
    using tree by (simp add: st'_def)
  then have sorted': "rbt_sorted (pending (conn st'))" by (simp add: is_rbt_def)
  have km: "keys_match st'"
    unfolding keys_match_lookup [OF sorted']
  proof (intro allI impI)
    fix k v assume kv: "rbt_lookup (pending (conn st')) k = Some v"
    show "\<exists>operation. ops st' v = Some operation \<and> op_id operation = k"
    proof (cases "k = ?i")
      case True
      with kv look show ?thesis by (simp add: st'_def)
    next
      case False
      with kv look have old: "rbt_lookup ?t k = Some v" by simp
      with a have "v \<noteq> r"
        by (force simp add: registered_ops_def rbt_lookup_in_tree [OF sorted])
      moreover from a old obtain operation where "ops st v = Some operation" "op_id operation = k"
        unfolding keys_match_lookup [OF sorted] by blast
      ultimately show ?thesis by (simp add: st'_def)
    qed
  qed
  have "ops st' r = Some ?x" "op_id ?x = ?i" by (simp_all add: st'_def)
  moreover have "gb_operation_find st' ?i = Some r"
    by (simp add: gb_operation_find_def find_walk_lookup look)
  ultimately show "\<exists>st' op'. gb_operation_insert r st = Inr st' \<and> ops st' r = Some op' \<and>
               op_id op' = ?i \<and> gb_operation_find st' (op_id op') = Some r \<and>
               is_rbt (pending (conn st')) \<and> keys_match st'"
    using ins tree' km by auto
qed

text \<open>
  The state with three pending operations has a red-black tree whose keys are the ids of
  its operations.
\<close>

lemma ex_three_pending_tree:
  "is_rbt (pending (conn ex_three_pending))" "keys_match ex_three_pending"
  "registered_ids ex_three_pending = [1, 2, 3]" "registered_ops ex_three_pending = [0, 3, 6]"
  by (simp_all add: ex_three_pending_def is_rbt_def keys_match_def registered_ids_def
      registered_ops_def RBT_Impl.keys_def)

text \<open>
  At a concrete input, with operations 0, 3 and 6 pending under 1, 2 and 3: operation 9 is
  inserted with identifier 4 and found; operation 3 is removed and identifier 2 is no
  longer found; identifier 9 is not found.
\<close>

theorem registry_insert_find_remove_witness:
  "is_rbt (pending (conn ex_three_pending)) \<and> keys_match ex_three_pending \<and>
   registered_ids ex_three_pending = [1, 2, 3] \<and> registered_ops ex_three_pending = [0, 3, 6] \<and>
   (\<exists>st' op'. gb_operation_insert 9 ex_three_pending = Inr st' \<and> ops st' 9 = Some op' \<and>
      op_id op' = 4 \<and> gb_operation_find st' 4 = Some 9 \<and> keys_match st') \<and>
   (\<exists>st'. gb_operation_remove 3 ex_three_pending = Inr st' \<and> gb_operation_find st' 2 = None) \<and>
   gb_operation_find ex_three_pending 9 = None"
proof -
  note t = registry_insert_find_remove [OF ex_three_pending_tree(1)]
  have i: "fst (gb_connection_operation_id (conn ex_three_pending)) = 4"
    by (simp add: gb_connection_operation_id_def ex_three_pending_def)
  define o9 where "o9 = \<lparr>request = Some 10, response = Some 11, op_id = 0,
          result = None, callback = None\<rparr>"
  define g10 where "g10 = \<lparr>transfer_buffer = [8, 0, 0, 0, 1, 0, 0, 0 :: u8],
                       transfer_buffer_length = 8, actual_length = 0, status = None,
                       gbuf_context = 9, data_out = True\<rparr>"
  define o3 where "o3 = \<lparr>request = Some 4, response = Some 5, op_id = 2,
          result = None, callback = Some 7\<rparr>"
  have p1: "ops ex_three_pending 9 = Some o9 \<and> request o9 = Some 10 \<and>
        gbufs ex_three_pending 10 = Some g10 \<and> 4 \<le> length (transfer_buffer g10) \<and>
        keys_match ex_three_pending \<and> 9 \<notin> set (registered_ops ex_three_pending) \<and>
        fst (gb_connection_operation_id (conn ex_three_pending))
          \<notin> set (registered_ids ex_three_pending)"
    by (simp add: ex_three_pending_tree i) (simp add: ex_three_pending_def o9_def g10_def)
  from t [THEN conjunct1, rule_format, OF p1] i
  have a: "\<exists>st' op'. gb_operation_insert 9 ex_three_pending = Inr st' \<and> ops st' 9 = Some op' \<and>
      op_id op' = 4 \<and> gb_operation_find st' 4 = Some 9 \<and> keys_match st'"
    by auto
  have p2: "ops ex_three_pending 3 = Some o3 \<and>
        gb_operation_find ex_three_pending (op_id o3) = Some 3"
    by (simp add: ex_three_pending_def gb_operation_find_def o3_def)
  have "op_id o3 = 2" by (simp add: o3_def)
  with t [THEN conjunct2, THEN conjunct1, rule_format, OF p2]
  have b: "\<exists>st'. gb_operation_remove 3 ex_three_pending = Inr st' \<and>
             gb_operation_find st' 2 = None"
    by auto
  have p3: "9 \<notin> set (registered_ids ex_three_pending)"
    by (simp add: ex_three_pending_tree)
  from t [THEN conjunct2, THEN conjunct2, rule_format, OF p3]
  have c: "gb_operation_find ex_three_pending 9 = None" .
  from ex_three_pending_tree a b c show ?thesis by blast
qed

text \<open>
  C7 as stated fails. The registry holds one operation, with identifier 1, so its
  identifiers are pairwise distinct. The counter has wrapped and assigns 1 to the operation
  being inserted: the loop of \<open>gb_operation_insert\<close> meets the pending operation with an
  equal id and never exits, so there is no state after the insert.
\<close>

theorem registry_insert_wrapped_counterexample:
  "is_rbt (pending (conn ex_wrapped)) \<and> registered_ids ex_wrapped = [1] \<and>
   gb_operation_find ex_wrapped 1 = Some 0 \<and>
   fst (gb_connection_operation_id (conn ex_wrapped)) = 1 \<and>
   gb_operation_insert 9 ex_wrapped = Inl No_return"
  by (simp add: ex_wrapped_def is_rbt_def registered_ids_def RBT_Impl.keys_def
      gb_operation_find_def gb_connection_operation_id_def gb_operation_insert_def
      le16_store_def)

text \<open>
  Inserting an operation that is already pending: its id is overwritten before the loop, the
  loop meets the operation itself, and never exits.
\<close>

lemma reinsert_pending_never_returns: "gb_operation_insert 0 ex_pending = Inl No_return"
  by (simp add: ex_pending_def gb_connection_operation_id_def gb_operation_insert_def
      le16_store_def)

text \<open>
  In general, when the identifier the connection assigns is already in the pending tree, the
  loop of \<open>gb_operation_insert\<close> never exits.
\<close>

lemma insert_collision_never_returns:
  assumes "ops st r = Some operation" and "request operation = Some rq"
    and "gbufs st rq = Some g" and "4 \<le> length (transfer_buffer g)"
    and "keys_match st"
    and "gb_operation_find st (fst (gb_connection_operation_id (conn st))) \<noteq> None"
  shows "gb_operation_insert r st = Inl No_return"
proof -
  let ?i = "fst (gb_connection_operation_id (conn st))"
  have pend: "pending (snd (gb_connection_operation_id (conn st))) = pending (conn st)"
    by (simp add: gb_connection_operation_id_def Let_def)
  from assms(5) have "list_all (\<lambda>(k, v). case ops st v of None \<Rightarrow> False
                                 | Some operation \<Rightarrow> op_id operation = k)
                        (RBT_Impl.entries (pending (conn st)))"
    by (simp add: keys_match_def)
  from insert_walk_spins [OF this, of "operation\<lparr>op_id := ?i\<rparr>" ?i r] assms(6)
  have "insert_walk ((ops st)(r \<mapsto> operation\<lparr>op_id := ?i\<rparr>)) (pending (conn st)) ?i
          = Some No_return"
    by (simp add: gb_operation_find_def)
  with assms(1-4) pend show ?thesis
    by (simp add: gb_operation_insert_def le16_store_def split_beta Let_def)
qed

subsection \<open>The receive path\<close>

lemma length_hdr_init: "length (hdr_init n t) = n"
  by (simp add: hdr_init_def)

lemma recv_request_eq:
  assumes len: "length data \<le> GB_OPERATION_MESSAGE_SIZE_MAX"
    and hs: "hdr_size data = Some s" and ht: "hdr_type data = Some type"
    and req: "type AND GB_OPERATION_TYPE_RESPONSE = 0"
  shows "gb_connection_operation_recv data st =
     (let st0 = (if unat s \<noteq> length data then st\<lparr>trace := trace st @ [Warn_on]\<rparr> else st) in
      if \<not> script_ok (alloc_script st)
      then Inr (gb_connection_err ''can't create operation''
                  (st0\<lparr>alloc_script := tl (alloc_script st)\<rparr>))
      else if \<not> script_ok (tl (alloc_script st))
      then Inr (gb_connection_err ''can't create operation''
                  (st0\<lparr>alloc_script := tl (tl (alloc_script st)),
                       ops := (ops st)(next_ref st := None),
                       next_ref := next_ref st + 1\<rparr>))
      else if length data < unat s then Inl Out_of_bounds_read
      else Inr (st0\<lparr>conn := (conn st)\<lparr>operations := operations (conn st) @ [next_ref st]\<rparr>,
                   alloc_script := tl (tl (alloc_script st)),
                   ops := (ops st)(next_ref st \<mapsto>
                            zeroed_operation\<lparr>request := Some (next_ref st + 1)\<rparr>),
                   gbufs := (gbufs st)(next_ref st + 1 \<mapsto>
                     \<lparr>transfer_buffer = take (unat s) data @
                                          drop (unat s) (hdr_init (unat s + sizeof_hdr) type),
                      transfer_buffer_length = unat s + sizeof_hdr,
                      actual_length = unat s, status = None,
                      gbuf_context = next_ref st, data_out = False\<rparr>),
                   next_ref := next_ref st + 2,
                   recv_workqueue := recv_workqueue st @ [next_ref st]\<rparr>))"
proof -
  have "unat s < 2 ^ LENGTH(16)" by (rule unsigned_less)
  then have nowrap: "unat s + sizeof_hdr < 2 ^ 64" by (simp add: sizeof_hdr_def)
  have five: "5 \<le> unat s + sizeof_hdr" by (simp add: sizeof_hdr_def)
  show ?thesis
    using len hs ht req
    by (simp add: gb_connection_operation_recv_def create_incoming_eq [OF nowrap]
        gb_connection_err_def recv_copy_def memcpy_def length_hdr_init Let_def
        zeroed_operation_def)
qed

text \<open>
  C9 (amended). For every inbound frame of at most 4096 bytes whose response bit is clear
  and whose declared size does not exceed its length, when the two allocations succeed the
  dispatcher creates a new operation, adds it to the connection's list and queues its work;
  the operation has no response buffer, and the capacity of its request buffer is the
  declared size plus the header size.
\<close>

theorem recv_request_creates:
  assumes len: "length data \<le> GB_OPERATION_MESSAGE_SIZE_MAX"
    and hs: "hdr_size data = Some s" and ht: "hdr_type data = Some type"
    and req: "type AND GB_OPERATION_TYPE_RESPONSE = 0"
    and within: "unat s \<le> length data"
    and allocs: "False \<notin> set (take 2 (alloc_script st))"
  shows "\<exists>st' operation g gb.
           gb_connection_operation_recv data st = Inr st' \<and>
           ops st' (next_ref st) = Some operation \<and>
           response operation = None \<and> request operation = Some g \<and>
           gbufs st' g = Some gb \<and>
           transfer_buffer_length gb = unat s + sizeof_hdr \<and>
           length (transfer_buffer gb) = unat s + sizeof_hdr \<and>
           operations (conn st') = operations (conn st) @ [next_ref st] \<and>
           recv_workqueue st' = recv_workqueue st @ [next_ref st]"
  using within allocs
  by (simp add: recv_request_eq [OF len hs ht req] take2_script zeroed_operation_def
      length_hdr_init Let_def)

text \<open>
  At a concrete input: a request of 8 bytes declaring 8 bytes gets a request buffer of 16
  bytes.
\<close>

theorem recv_request_creates_witness:
  "length ex_request \<le> GB_OPERATION_MESSAGE_SIZE_MAX \<and> hdr_size ex_request = Some 8 \<and>
   hdr_type ex_request = Some 1 \<and> (1 :: u8) AND GB_OPERATION_TYPE_RESPONSE = 0 \<and>
   unat (8 :: u16) \<le> length ex_request \<and>
   False \<notin> set (take 2 (alloc_script (idle_state 0 []))) \<and>
   (\<exists>st' operation g gb.
      gb_connection_operation_recv ex_request (idle_state 0 []) = Inr st' \<and>
      ops st' 0 = Some operation \<and> response operation = None \<and> request operation = Some g \<and>
      gbufs st' g = Some gb \<and> transfer_buffer_length gb = 16 \<and>
      length (transfer_buffer gb) = 16 \<and>
      operations (conn st') = [0] \<and> recv_workqueue st' = [0])"
proof -
  have h: "length ex_request \<le> GB_OPERATION_MESSAGE_SIZE_MAX" "hdr_size ex_request = Some 8"
    "hdr_type ex_request = Some 1" "(1 :: u8) AND GB_OPERATION_TYPE_RESPONSE = 0"
    "unat (8 :: u16) \<le> length ex_request"
    "False \<notin> set (take 2 (alloc_script (idle_state 0 [])))"
    by (simp_all add: ex_request_def GB_OPERATION_MESSAGE_SIZE_MAX_def hdr_size_def hdr_type_def
        le16_load_def u8_load_def GB_OPERATION_TYPE_RESPONSE_def idle_state_def)
  from recv_request_creates [OF h] h show ?thesis
    by (simp add: idle_state_def sizeof_hdr_def)
qed

text \<open>
  C9 as stated fails: the frame declares a size of 8 and the request buffer of the operation
  created for it has a capacity of 16.
\<close>

theorem recv_request_capacity_counterexample:
  "map_option unat (hdr_size ex_request) = Some 8 \<and>
   request_capacity_after 0 (gb_connection_operation_recv ex_request (idle_state 0 [])) = Some 16"
proof -
  have h: "length ex_request \<le> GB_OPERATION_MESSAGE_SIZE_MAX" "hdr_size ex_request = Some 8"
    "hdr_type ex_request = Some 1" "(1 :: u8) AND GB_OPERATION_TYPE_RESPONSE = 0"
    by (simp_all add: ex_request_def GB_OPERATION_MESSAGE_SIZE_MAX_def hdr_size_def hdr_type_def
        le16_load_def u8_load_def GB_OPERATION_TYPE_RESPONSE_def)
  have "length ex_request = 8" by (simp add: ex_request_def)
  then show ?thesis
    by (simp add: recv_request_eq [OF h] h(2) request_capacity_after_def request_gbuf_def
        idle_state_def script_ok_def sizeof_hdr_def zeroed_operation_def)
qed

text \<open>
  C10. For every inbound frame whose response bit is clear, the dispatcher never writes past
  the end of a buffer; and whenever it accepts the frame (it queues work for an operation),
  it has copied exactly the declared size \<open>msg_size\<close> in bytes into that operation's
  request buffer, whose capacity is \<open>msg_size\<close> plus the header size.
\<close>

theorem recv_request_copy_in_bounds:
  assumes hs: "hdr_size data = Some s" and ht: "hdr_type data = Some type"
    and req: "type AND GB_OPERATION_TYPE_RESPONSE = 0"
  shows "gb_connection_operation_recv data st \<noteq> Inl Out_of_bounds_write \<and>
         (\<forall>st' r. gb_connection_operation_recv data st = Inr st' \<and>
                  recv_workqueue st' = recv_workqueue st @ [r] \<longrightarrow>
            (\<exists>gb. request_gbuf st' r = Some gb \<and> actual_length gb = unat s \<and>
               take (unat s) (transfer_buffer gb) = take (unat s) data \<and>
               transfer_buffer_length gb = unat s + sizeof_hdr \<and>
               length (transfer_buffer gb) = unat s + sizeof_hdr \<and>
               unat s \<le> length (transfer_buffer gb)))"
proof (cases "length data \<le> GB_OPERATION_MESSAGE_SIZE_MAX")
  case True
  show ?thesis
    by (auto simp add: recv_request_eq [OF True hs ht req] gb_connection_err_def request_gbuf_def
        zeroed_operation_def length_hdr_init Let_def)
next
  case False
  then show ?thesis
    by (simp add: gb_connection_operation_recv_def gb_connection_err_def)
qed

text \<open>
  At a concrete input: the request of 8 bytes is accepted and copied into a buffer of 16.
\<close>

theorem recv_request_copy_in_bounds_witness:
  "hdr_size ex_request = Some 8 \<and> hdr_type ex_request = Some 1 \<and>
   (1 :: u8) AND GB_OPERATION_TYPE_RESPONSE = 0 \<and>
   gb_connection_operation_recv ex_request (idle_state 0 []) \<noteq> Inl Out_of_bounds_write \<and>
   (\<exists>st' gb. gb_connection_operation_recv ex_request (idle_state 0 []) = Inr st' \<and>
      recv_workqueue st' = [0] \<and> request_gbuf st' 0 = Some gb \<and> actual_length gb = 8 \<and>
      take 8 (transfer_buffer gb) = ex_request \<and> length (transfer_buffer gb) = 16)"
proof -
  have l: "length ex_request \<le> GB_OPERATION_MESSAGE_SIZE_MAX"
    by (simp add: ex_request_def GB_OPERATION_MESSAGE_SIZE_MAX_def)
  have h: "hdr_size ex_request = Some 8" "hdr_type ex_request = Some 1"
    "(1 :: u8) AND GB_OPERATION_TYPE_RESPONSE = 0"
    by (simp_all add: ex_request_def hdr_size_def hdr_type_def le16_load_def u8_load_def
        GB_OPERATION_TYPE_RESPONSE_def)
  have n: "length ex_request = 8" by (simp add: ex_request_def)
  have "\<exists>st'. gb_connection_operation_recv ex_request (idle_state 0 []) = Inr st' \<and>
          recv_workqueue st' = recv_workqueue (idle_state 0 []) @ [0]"
    by (simp add: recv_request_eq [OF l h] n idle_state_def script_ok_def)
  then obtain st' where
    r: "gb_connection_operation_recv ex_request (idle_state 0 []) = Inr st'"
      "recv_workqueue st' = recv_workqueue (idle_state 0 []) @ [0]"
    by blast
  from recv_request_copy_in_bounds [OF h, of "idle_state 0 []"] r
  obtain gb where "request_gbuf st' 0 = Some gb" "actual_length gb = unat (8 :: u16)"
    "take (unat (8 :: u16)) (transfer_buffer gb) = take (unat (8 :: u16)) ex_request"
    "length (transfer_buffer gb) = unat (8 :: u16) + sizeof_hdr"
    by blast
  with r n h recv_request_copy_in_bounds [OF h, of "idle_state 0 []"] show ?thesis
    by (simp add: idle_state_def sizeof_hdr_def)
qed

text \<open>
  The guard the dispatcher has: for every inbound frame whose length exceeds the maximum
  frame size (4096 bytes) it reports the frame as too big and returns; the operations, the
  buffers, the connection with its pending tree and its operation list, and the work queue
  are unchanged.
\<close>

lemma recv_oversize_dropped:
  assumes "length data > GB_OPERATION_MESSAGE_SIZE_MAX"
  shows "\<exists>st'. gb_connection_operation_recv data st = Inr st' \<and>
           ops st' = ops st \<and> gbufs st' = gbufs st \<and> conn st' = conn st \<and>
           recv_workqueue st' = recv_workqueue st \<and>
           trace st' = trace st @ [Err ''message too big'']"
  using assms by (simp add: gb_connection_operation_recv_def gb_connection_err_def)

text \<open>
  At a concrete input: a frame of 4097 bytes arriving while an operation is pending.
\<close>

lemma recv_oversize_dropped_example:
  "length (replicate 4097 (0 :: u8)) > GB_OPERATION_MESSAGE_SIZE_MAX \<and>
   (\<exists>st'. gb_connection_operation_recv (replicate 4097 0) ex_pending = Inr st' \<and>
      ops st' = ops ex_pending \<and> gbufs st' = gbufs ex_pending \<and> conn st' = conn ex_pending \<and>
      recv_workqueue st' = [] \<and>
      trace st' = [Gbuf_submitted 1, Err ''message too big''])"
  using recv_oversize_dropped [of "replicate 4097 0" ex_pending]
  by (simp add: GB_OPERATION_MESSAGE_SIZE_MAX_def ex_pending_def)

text \<open>
  C4 fails on the code. A request of 8 bytes whose header declares 4097 bytes, more than
  the maximum frame size, is not dropped: only the length of the frame is compared with
  the maximum. \<open>WARN_ON(msg_size != size)\<close> fires, the dispatcher goes on, creates
  operation 0 for the frame, and \<open>memcpy\<close> then reads 4097 bytes from the 8-byte block.
\<close>

theorem declared_oversize_request_not_dropped:
  "map_option unat (hdr_size ex_request_declared_4097) = Some 4097 \<and>
   GB_OPERATION_MESSAGE_SIZE_MAX < 4097 \<and>
   created_ref (gb_operation_create 1 4097 0 ((idle_state 0 [])\<lparr>trace := [Warn_on]\<rparr>)) = Some 0 \<and>
   gb_connection_operation_recv ex_request_declared_4097 (idle_state 0 []) =
     Inl Out_of_bounds_read"
proof -
  have l: "length ex_request_declared_4097 \<le> GB_OPERATION_MESSAGE_SIZE_MAX"
    by (simp add: ex_request_declared_4097_def GB_OPERATION_MESSAGE_SIZE_MAX_def)
  have h: "hdr_size ex_request_declared_4097 = Some 4097"
    "hdr_type ex_request_declared_4097 = Some 1"
    "(1 :: u8) AND GB_OPERATION_TYPE_RESPONSE = 0"
    by (simp_all add: ex_request_declared_4097_def hdr_size_def hdr_type_def le16_load_def
        u8_load_def GB_OPERATION_TYPE_RESPONSE_def)
  have n: "length ex_request_declared_4097 = 8" by (simp add: ex_request_declared_4097_def)
  have c: "created_ref (gb_operation_create 1 4097 0 ((idle_state 0 [])\<lparr>trace := [Warn_on]\<rparr>))
             = Some 0"
    by (simp add: create_incoming_eq sizeof_hdr_def created_ref_def idle_state_def script_ok_def)
  have "gb_connection_operation_recv ex_request_declared_4097 (idle_state 0 []) =
          Inl Out_of_bounds_read"
    by (simp add: recv_request_eq [OF l h] n idle_state_def script_ok_def)
  with h(1) c show ?thesis
    by (simp add: GB_OPERATION_MESSAGE_SIZE_MAX_def)
qed

text \<open>
  On every request that declares more than the maximum and is not longer than it, either an
  allocation fails and the frame is dropped with buffers, connection and work queue as they
  were, or the dispatcher reads past the end of the frame.
\<close>

lemma declared_oversize_request_outcomes:
  assumes len: "length data \<le> GB_OPERATION_MESSAGE_SIZE_MAX"
    and hs: "hdr_size data = Some s" and ht: "hdr_type data = Some type"
    and req: "type AND GB_OPERATION_TYPE_RESPONSE = 0"
    and big: "unat s > GB_OPERATION_MESSAGE_SIZE_MAX"
  shows "(if False \<in> set (take 2 (alloc_script st))
          then \<exists>st'. gb_connection_operation_recv data st = Inr st' \<and>
                 gbufs st' = gbufs st \<and> conn st' = conn st \<and>
                 recv_workqueue st' = recv_workqueue st \<and>
                 last (trace st') = Err ''can't create operation''
          else gb_connection_operation_recv data st = Inl Out_of_bounds_read)"
  using len big
  by (simp add: recv_request_eq [OF len hs ht req] take2_script gb_connection_err_def Let_def)

lemma recv_response_eq:
  assumes len: "length data \<le> GB_OPERATION_MESSAGE_SIZE_MAX"
    and hs: "hdr_size data = Some s" and ht: "hdr_type data = Some type"
    and resp: "type AND GB_OPERATION_TYPE_RESPONSE \<noteq> 0"
    and hi: "hdr_id data = Some i"
    and found: "gb_operation_find st i = Some r"
    and op: "ops st r = Some operation" and key: "op_id operation = i"
    and rsp: "response operation = Some g" and gb: "gbufs st g = Some gb"
  shows "gb_connection_operation_recv data st =
     (let st2 = st\<lparr>conn := (conn st)\<lparr>pending := rbt_delete i (pending (conn st))\<rparr>,
                    gbufs := (gbufs st)(g \<mapsto> gb\<lparr>status := Some GB_OP_SUCCESS\<rparr>)\<rparr> in
      if length data > transfer_buffer_length gb
      then Inr (gb_connection_err ''recv buffer too small'' st2)
      else recv_copy r g data (unat s) st2)"
proof -
  from found have "rbt_lookup (pending (conn st)) i = Some r"
    by (simp add: gb_operation_find_def find_walk_lookup)
  with assms show ?thesis
    by (simp add: gb_connection_operation_recv_def gb_operation_remove_def gbuf_set_def Let_def)
qed

text \<open>
  What the dispatcher does when it drops a response because the frame is longer than the
  capacity of the response buffer of the operation it matched: that operation has already
  been removed from the pending tree and is no longer found; every other identifier is
  found as before, no operation is changed and no work is queued.
\<close>

lemma oversize_response_drop:
  assumes len: "length data \<le> GB_OPERATION_MESSAGE_SIZE_MAX"
    and hs: "hdr_size data = Some s" and ht: "hdr_type data = Some type"
    and resp: "type AND GB_OPERATION_TYPE_RESPONSE \<noteq> 0"
    and hi: "hdr_id data = Some i"
    and found: "gb_operation_find st i = Some r"
    and op: "ops st r = Some operation" and key: "op_id operation = i"
    and rsp: "response operation = Some g" and gb: "gbufs st g = Some gb"
    and big: "length data > transfer_buffer_length gb"
    and tree: "is_rbt (pending (conn st))"
  shows "\<exists>st'. gb_connection_operation_recv data st = Inr st' \<and>
           gb_operation_find st' i = None \<and>
           (\<forall>j. j \<noteq> i \<longrightarrow> gb_operation_find st' j = gb_operation_find st j) \<and>
           ops st' = ops st \<and> recv_workqueue st' = recv_workqueue st \<and>
           trace st' = trace st @ [Err ''recv buffer too small'']"
  using big tree
  by (simp add: recv_response_eq [OF len hs ht resp hi found op key rsp gb] gb_connection_err_def
      gb_operation_find_def find_walk_lookup rbt_lookup_rbt_delete restrict_map_def)

text \<open>
  C3. For every inbound response frame that matches a pending operation: if the frame is
  longer than the capacity of the operation's response buffer, the dispatcher reports it
  and returns with the bytes and the used length of every buffer unchanged and no work
  queued; the bytes of the response buffer change only when the frame's length is within
  the capacity; and when it is, and the declared size is within the frame and the buffer,
  the declared number of bytes is copied into the response buffer and the work is queued.
\<close>

theorem response_buffer_guard:
  assumes len: "length data \<le> GB_OPERATION_MESSAGE_SIZE_MAX"
    and hs: "hdr_size data = Some s" and ht: "hdr_type data = Some type"
    and resp: "type AND GB_OPERATION_TYPE_RESPONSE \<noteq> 0"
    and hi: "hdr_id data = Some i"
    and found: "gb_operation_find st i = Some r"
    and op: "ops st r = Some operation" and key: "op_id operation = i"
    and rsp: "response operation = Some g" and gb: "gbufs st g = Some gb"
  shows "(length data > transfer_buffer_length gb \<longrightarrow>
            (\<exists>st'. gb_connection_operation_recv data st = Inr st' \<and>
               (\<forall>b. map_option transfer_buffer (gbufs st' b) =
                      map_option transfer_buffer (gbufs st b)) \<and>
               (\<forall>b. map_option actual_length (gbufs st' b) =
                      map_option actual_length (gbufs st b)) \<and>
               recv_workqueue st' = recv_workqueue st \<and>
               trace st' = trace st @ [Err ''recv buffer too small''])) \<and>
         (\<forall>st'. gb_connection_operation_recv data st = Inr st' \<and>
                 map_option transfer_buffer (gbufs st' g) \<noteq> Some (transfer_buffer gb) \<longrightarrow>
                 length data \<le> transfer_buffer_length gb) \<and>
         (length data \<le> transfer_buffer_length gb \<and> unat s \<le> length data \<and>
          unat s \<le> length (transfer_buffer gb) \<longrightarrow>
            (\<exists>st' gb'. gb_connection_operation_recv data st = Inr st' \<and>
               gbufs st' g = Some gb' \<and>
               transfer_buffer gb' = take (unat s) data @ drop (unat s) (transfer_buffer gb) \<and>
               actual_length gb' = unat s \<and>
               recv_workqueue st' = recv_workqueue st @ [r]))"
  using gb
  by (auto simp add: recv_response_eq [OF len hs ht resp hi found op key rsp gb]
      gb_connection_err_def recv_copy_def memcpy_def Let_def)

lemma ex_response_24_header:
  "length ex_response_24 \<le> GB_OPERATION_MESSAGE_SIZE_MAX" "hdr_size ex_response_24 = Some 24"
  "hdr_type ex_response_24 = Some 0x81" "(0x81 :: u8) AND GB_OPERATION_TYPE_RESPONSE \<noteq> 0"
  "hdr_id ex_response_24 = Some 1"
  by (simp_all add: ex_response_24_def GB_OPERATION_MESSAGE_SIZE_MAX_def hdr_size_def hdr_type_def
      hdr_id_def le16_load_def u8_load_def GB_OPERATION_TYPE_RESPONSE_def)

lemma ex_response_16_header:
  "length ex_response_16 \<le> GB_OPERATION_MESSAGE_SIZE_MAX" "hdr_size ex_response_16 = Some 16"
  "hdr_type ex_response_16 = Some 0x81" "(0x81 :: u8) AND GB_OPERATION_TYPE_RESPONSE \<noteq> 0"
  "hdr_id ex_response_16 = Some 1"
  by (simp_all add: ex_response_16_def GB_OPERATION_MESSAGE_SIZE_MAX_def hdr_size_def hdr_type_def
      hdr_id_def le16_load_def u8_load_def GB_OPERATION_TYPE_RESPONSE_def)

lemma ex_pending_operation:
  "gb_operation_find ex_pending 1 = Some 0"
  "ops ex_pending 0 = Some \<lparr>request = Some 1, response = Some 2, op_id = 1, result = None,
                             callback = Some 7\<rparr>"
  "op_id \<lparr>request = Some 1, response = Some 2, op_id = 1, result = None,
          callback = Some 7\<rparr> = 1"
  "response \<lparr>request = Some 1, response = Some 2, op_id = 1, result = None,
             callback = Some 7\<rparr> = Some 2"
  "gbufs ex_pending 2 =
     Some \<lparr>transfer_buffer = [16, 0, 0, 0, 0x81, 0, 0, 0, 0, 0, 0, 0, 0, 0, 0, 0],
           transfer_buffer_length = 16, actual_length = 0, status = None,
           gbuf_context = 0, data_out = False\<rparr>"
  by (simp_all add: ex_pending_def gb_operation_find_def)

lemma ex_pending_is_rbt: "is_rbt (pending (conn ex_pending))"
  by (simp add: ex_pending_def is_rbt_def)

text \<open>
  At a concrete input: a response of 24 bytes for the pending operation 1, whose response
  buffer has 16 bytes.
\<close>

lemma oversize_response_drop_example:
  "length ex_response_24 \<le> GB_OPERATION_MESSAGE_SIZE_MAX \<and>
   hdr_size ex_response_24 = Some 24 \<and> hdr_type ex_response_24 = Some 0x81 \<and>
   hdr_id ex_response_24 = Some 1 \<and> gb_operation_find ex_pending 1 = Some 0 \<and>
   map_option transfer_buffer_length (response_gbuf ex_pending 0) = Some 16 \<and>
   is_rbt (pending (conn ex_pending)) \<and>
   (\<exists>st'. gb_connection_operation_recv ex_response_24 ex_pending = Inr st' \<and>
      gb_operation_find st' 1 = None \<and> ops st' = ops ex_pending \<and> recv_workqueue st' = [] \<and>
      trace st' = [Gbuf_submitted 1, Err ''recv buffer too small''])"
proof -
  have big: "length ex_response_24 >
      transfer_buffer_length
        \<lparr>transfer_buffer = [16, 0, 0, 0, 0x81, 0, 0, 0, 0, 0, 0, 0, 0, 0, 0, 0],
         transfer_buffer_length = 16, actual_length = 0, status = None,
         gbuf_context = 0, data_out = False\<rparr>"
    by (simp add: ex_response_24_def)
  from oversize_response_drop [OF ex_response_24_header ex_pending_operation big
      ex_pending_is_rbt]
  obtain st' where r: "gb_connection_operation_recv ex_response_24 ex_pending = Inr st'"
    "gb_operation_find st' 1 = None" "ops st' = ops ex_pending"
    "recv_workqueue st' = recv_workqueue ex_pending"
    "trace st' = trace ex_pending @ [Err ''recv buffer too small'']"
    by blast
  have e: "recv_workqueue ex_pending = []" "trace ex_pending = [Gbuf_submitted 1]"
    "map_option transfer_buffer_length (response_gbuf ex_pending 0) = Some 16"
    by (simp_all add: response_gbuf_def ex_pending_operation) (simp_all add: ex_pending_def)
  from r e have "\<exists>st'. gb_connection_operation_recv ex_response_24 ex_pending = Inr st' \<and>
      gb_operation_find st' 1 = None \<and> ops st' = ops ex_pending \<and> recv_workqueue st' = [] \<and>
      trace st' = [Gbuf_submitted 1, Err ''recv buffer too small'']"
    by simp
  with ex_response_24_header ex_pending_operation(1) e(3) ex_pending_is_rbt show ?thesis
    by blast
qed

text \<open>
  C2 fails on the code. Operation 1 is pending with a response buffer of 16 bytes. A
  response of 24 bytes for it arrives and is dropped as too big for the buffer; but
  \<open>gb_operation_remove\<close> has run before the check, and afterwards the pending tree is
  empty: the operation the response matched is no longer registered.
\<close>

theorem oversize_response_unregisters:
  "hdr_id ex_response_24 = Some 1 \<and> gb_operation_find ex_pending 1 = Some 0 \<and>
   registered_ids ex_pending = [1] \<and>
   map_option transfer_buffer_length (response_gbuf ex_pending 0) = Some 16 \<and>
   length ex_response_24 = 24 \<and>
   registered_after (gb_connection_operation_recv ex_response_24 ex_pending) = Some []"
proof -
  have d: "rbt_delete 1 (pending (conn ex_pending)) = RBT_Impl.Empty"
    by (simp add: ex_pending_def rbt_delete_def)
  have n: "length ex_response_24 = 24"
    by (simp add: ex_response_24_def)
  have "registered_after (gb_connection_operation_recv ex_response_24 ex_pending) = Some []"
    by (simp add: recv_response_eq [OF ex_response_24_header ex_pending_operation] n d
        registered_after_def registered_ids_def gb_connection_err_def)
  moreover have "registered_ids ex_pending = [1]"
    "map_option transfer_buffer_length (response_gbuf ex_pending 0) = Some 16"
    by (simp_all add: response_gbuf_def ex_pending_operation)
      (simp_all add: ex_pending_def registered_ids_def)
  ultimately show ?thesis
    using ex_response_24_header(5) ex_pending_operation(1) n by simp
qed

text \<open>
  At concrete inputs, with operation 1 pending and a response buffer of 16 bytes: a
  response of 24 bytes leaves the buffer as it was and queues nothing; a response of 16
  bytes is copied into the buffer and queued.
\<close>

theorem response_buffer_guard_witness:
  "hdr_id ex_response_24 = Some 1 \<and> hdr_id ex_response_16 = Some 1 \<and>
   gb_operation_find ex_pending 1 = Some 0 \<and>
   map_option transfer_buffer_length (response_gbuf ex_pending 0) = Some 16 \<and>
   length ex_response_24 = 24 \<and> length ex_response_16 = 16 \<and>
   (\<exists>st'. gb_connection_operation_recv ex_response_24 ex_pending = Inr st' \<and>
      map_option transfer_buffer (gbufs st' 2) = map_option transfer_buffer (gbufs ex_pending 2) \<and>
      recv_workqueue st' = []) \<and>
   (\<exists>st' gb'. gb_connection_operation_recv ex_response_16 ex_pending = Inr st' \<and>
      gbufs st' 2 = Some gb' \<and> transfer_buffer gb' = ex_response_16 \<and>
      actual_length gb' = 16 \<and> recv_workqueue st' = [0])"
proof -
  have n: "length ex_response_24 = 24" "length ex_response_16 = 16"
    by (simp_all add: ex_response_24_def ex_response_16_def)
  have e: "recv_workqueue ex_pending = []"
    "map_option transfer_buffer_length (response_gbuf ex_pending 0) = Some 16"
    by (simp_all add: response_gbuf_def ex_pending_operation) (simp_all add: ex_pending_def)
  note big = response_buffer_guard [OF ex_response_24_header ex_pending_operation]
  note fit = response_buffer_guard [OF ex_response_16_header ex_pending_operation]
  from big n obtain st' where a:
    "gb_connection_operation_recv ex_response_24 ex_pending = Inr st'"
    "\<forall>b. map_option transfer_buffer (gbufs st' b) = map_option transfer_buffer (gbufs ex_pending b)"
    "recv_workqueue st' = recv_workqueue ex_pending"
    by auto
  from fit n obtain st'' gb' where b:
    "gb_connection_operation_recv ex_response_16 ex_pending = Inr st''"
    "gbufs st'' 2 = Some gb'"
    "transfer_buffer gb' = take (unat (16 :: u16)) ex_response_16 @
       drop (unat (16 :: u16)) [16, 0, 0, 0, 0x81, 0, 0, 0, 0, 0, 0, 0, 0, 0, 0, 0]"
    "actual_length gb' = unat (16 :: u16)"
    "recv_workqueue st'' = recv_workqueue ex_pending @ [0]"
    by auto
  from a e have A: "\<exists>st'. gb_connection_operation_recv ex_response_24 ex_pending = Inr st' \<and>
      map_option transfer_buffer (gbufs st' 2) = map_option transfer_buffer (gbufs ex_pending 2) \<and>
      recv_workqueue st' = []"
    by simp
  from b e n have B: "\<exists>st' gb'. gb_connection_operation_recv ex_response_16 ex_pending = Inr st' \<and>
      gbufs st' 2 = Some gb' \<and> transfer_buffer gb' = ex_response_16 \<and>
      actual_length gb' = 16 \<and> recv_workqueue st' = [0]"
    by simp
  from A B n e ex_response_24_header(5) ex_response_16_header(5) ex_pending_operation(1)
  show ?thesis by blast
qed

subsection \<open>Completion and waiting\<close>

text \<open>
  The handler table under the concrete numbering: 256 entries, none for protocol 0, the
  empty handler for protocol 3.
\<close>

lemma ex_protocols_handlers:
  "length (gb_operation_recv_handlers ex_protocols) = 256"
  "gb_operation_recv_handlers ex_protocols ! 0 = None"
  "gb_operation_recv_handlers ex_protocols ! 3 = Some gb_operation_recv_none"
  by (simp_all add: gb_operation_recv_handlers_def recv_handler_inits_def ex_protocols_def)

lemma ex_request_header:
  "length ex_request \<le> GB_OPERATION_MESSAGE_SIZE_MAX" "hdr_size ex_request = Some 8"
  "hdr_type ex_request = Some 1" "(1 :: u8) AND GB_OPERATION_TYPE_RESPONSE = 0"
  by (simp_all add: ex_request_def GB_OPERATION_MESSAGE_SIZE_MAX_def hdr_size_def hdr_type_def
      le16_load_def u8_load_def GB_OPERATION_TYPE_RESPONSE_def)

lemma recv_ex_request:
  "gb_connection_operation_recv ex_request (idle_state proto []) =
     Inr \<lparr>conn = \<lparr>protocol = proto, op_cycle = 0, pending = RBT_Impl.Empty, operations = [0]\<rparr>,
          ops = [0 \<mapsto> zeroed_operation\<lparr>request := Some 1\<rparr>],
          gbufs = [1 \<mapsto> \<lparr>transfer_buffer = ex_request @ drop 8 (hdr_init 16 1),
                          transfer_buffer_length = 16, actual_length = 8, status = None,
                          gbuf_context = 0, data_out = False\<rparr>],
          next_ref = 2, alloc_script = [], recv_workqueue = [0], trace = []\<rparr>"
proof -
  have n: "length ex_request = 8" by (simp add: ex_request_def)
  show ?thesis
    by (simp add: recv_request_eq [OF ex_request_header] n idle_state_def script_ok_def
        sizeof_hdr_def)
qed

text \<open>
  C1 fails on the code. A request arrives on a connection whose protocol (0) has no handler
  in the table, and the worker runs the queued work: \<open>gb_operation_request_handle\<close>
  completes the operation, and \<open>gb_operation_recv_work\<close> completes it again. The
  completion fires twice.
\<close>

theorem unhandled_request_completes_twice:
  "protocol (conn (idle_state 0 [])) = 0 \<and>
   gb_operation_recv_handlers ex_protocols ! 0 = None \<and>
   notifications_after 0 (recv_then_work ex_protocols ex_request (idle_state 0 [])) = Some 2"
proof -
  have "protocol (conn (idle_state 0 [])) = 0"
    by (simp add: idle_state_def)
  moreover
  have "notifications_after 0 (recv_then_work ex_protocols ex_request (idle_state 0 [])) = Some 2"
    by (simp add: recv_then_work_def recv_ex_request run_recv_workqueue_def
        gb_operation_recv_work_def gb_operation_request_handle_def gb_operation_complete_def
        gb_connection_err_def op_set_def greybus_gbuf_finished_def ex_protocols_handlers
        notifications_after_def notifications_def zeroed_operation_def Let_def)
  ultimately show ?thesis
    by (simp add: ex_protocols_handlers)
qed

text \<open>
  The sibling paths complete once: a request for a protocol with a handler, and a response
  to a pending operation.
\<close>

lemma handled_request_completes_once:
  "notifications_after 0 (recv_then_work ex_protocols ex_request (idle_state 3 [])) = Some 1"
  by (simp add: recv_then_work_def recv_ex_request run_recv_workqueue_def
      gb_operation_recv_work_def gb_operation_request_handle_def gb_operation_complete_def
      gb_operation_recv_none_def greybus_gbuf_finished_def ex_protocols_handlers
      notifications_after_def notifications_def zeroed_operation_def Let_def)

lemma response_completes_once:
  "notifications_after 0 (recv_then_work ex_protocols ex_response_16 ex_pending) = Some 1"
proof -
  have n: "length ex_response_16 = 16" by (simp add: ex_response_16_def)
  have "\<exists>st. gb_connection_operation_recv ex_response_16 ex_pending = Inr st \<and>
          ops st = ops ex_pending \<and> recv_workqueue st = [0] \<and> trace st = trace ex_pending"
    by (simp add: recv_response_eq [OF ex_response_16_header ex_pending_operation] n
        recv_copy_def memcpy_def Let_def) (simp add: ex_pending_def)
  then obtain st where st: "gb_connection_operation_recv ex_response_16 ex_pending = Inr st"
    "ops st = ops ex_pending" "recv_workqueue st = [0]" "trace st = trace ex_pending"
    by blast
  have "trace ex_pending = [Gbuf_submitted 1]"
    by (simp add: ex_pending_def)
  with st show ?thesis
    by (simp add: recv_then_work_def run_recv_workqueue_def gb_operation_recv_work_def
        gb_operation_complete_def greybus_gbuf_finished_def notifications_after_def
        notifications_def ex_pending_operation Let_def)
qed

text \<open>
  C5 fails on the code. A synchronous send whose wait is interrupted cancels the request
  buffer, and then returns the result of the cancellation in place of the interruption:
  with a cancellation that succeeds, the send returns 0.
\<close>

theorem interrupted_wait_returns_cancel_result:
  "wait_ret ex_transport_interrupted = - 512 \<and>
   returned (gb_operation_request_send ex_transport_interrupted 0 None ex_created) = Some 0 \<and>
   trace_after (gb_operation_request_send ex_transport_interrupted 0 None ex_created) =
     [Gbuf_submitted 1, Gbuf_killed 1]"
  by (simp add: gb_operation_request_send_def gb_operation_insert_def op_set_def
      gb_connection_operation_id_def le16_store_def greybus_submit_gbuf_def
      gb_operation_wait_def greybus_kill_gbuf_def returned_def trace_after_def
      ex_transport_interrupted_def ex_created_def rbt_insert_Empty)

text \<open>
  In general an interrupted \<open>gb_operation_wait\<close> returns what \<open>greybus_kill_gbuf\<close>
  returned.
\<close>

lemma wait_interrupted_result:
  assumes "ops st r = Some operation" and "wait_ret env < 0"
  shows "returned (gb_operation_wait env r st) = Some (kill_ret env)"
  using assms
  by (simp add: gb_operation_wait_def greybus_kill_gbuf_def returned_def split: option.splits)

subsection \<open>Protocols without a handler, for any numbering\<close>

text \<open>
  Whatever the values of the protocol constants, the table holds a handler only at the
  indices of I2C and battery. A request on a connection with any other protocol is completed
  twice.
\<close>

lemma nth_list_update_in: "j < length xs \<Longrightarrow> xs[i := x] ! j = (if i = j then x else xs ! j)"
  by (cases "i = j") simp_all

lemma foldl_update_length: "length (foldl (\<lambda>t (i, h). t[i := h]) t xs) = length t"
  by (induction xs arbitrary: t) auto

lemma foldl_update_none:
  "j < length t \<Longrightarrow> t ! j = None \<Longrightarrow> \<forall>(i, h) \<in> set xs. i = j \<longrightarrow> h = None \<Longrightarrow>
   foldl (\<lambda>t (i, h). t[i := h]) t xs ! j = None"
proof (induction xs arbitrary: t)
  case Nil
  then show ?case by simp
next
  case (Cons x xs)
  obtain i h where x: "x = (i, h)" by (cases x)
  from Cons.prems x have "t[i := h] ! j = None"
    by (simp add: nth_list_update_in)
  with Cons.prems x show ?case
    by (simp add: Cons.IH)
qed

lemma recv_handlers_none:
  assumes "j < length (gb_operation_recv_handlers p)"
    and "j \<noteq> GREYBUS_PROTOCOL_I2C p" and "j \<noteq> GREYBUS_PROTOCOL_BATTERY p"
  shows "gb_operation_recv_handlers p ! j = None"
proof -
  define m where "m = Suc (foldr max (map fst (recv_handler_inits p)) 0)"
  have tbl: "gb_operation_recv_handlers p =
      foldl (\<lambda>t (i, h). t[i := h]) (replicate m None) (recv_handler_inits p)"
    unfolding gb_operation_recv_handlers_def m_def ..
  have inits: "\<forall>(i, h) \<in> set (recv_handler_inits p). i = j \<longrightarrow> h = None"
    using assms(2,3) by (auto simp add: recv_handler_inits_def)
  from assms(1) have jm: "j < m"
    by (simp add: tbl foldl_update_length)
  then have "replicate m (None :: gb_operation_recv_handler option) ! j = None"
    by simp
  with jm inits show ?thesis
    unfolding tbl by (intro foldl_update_none) simp_all
qed

lemma recv_handlers_nonempty: "0 < length (gb_operation_recv_handlers p)"
  by (simp add: gb_operation_recv_handlers_def foldl_update_length)

lemma proto_in_table:
  assumes "0 < n" and "proto \<le> (of_nat (n - 1) :: u8)"
  shows "unat proto < n"
proof -
  from assms(2) have "unat proto \<le> unat (of_nat (n - 1) :: u8)"
    by (simp add: word_le_nat_alt)
  also have "\<dots> \<le> n - 1"
    by (simp add: unat_of_nat)
  finally show ?thesis using assms(1) by simp
qed

lemma request_handle_unrecognized:
  assumes "ops st r = Some operation"
    and "unat (protocol (conn st)) \<noteq> GREYBUS_PROTOCOL_I2C p"
    and "unat (protocol (conn st)) \<noteq> GREYBUS_PROTOCOL_BATTERY p"
  shows "gb_operation_request_handle p r st =
           gb_operation_complete r
             (op_set r (\<lambda>x. x\<lparr>result := Some GB_OP_PROTOCOL_BAD\<rparr>)
                (gb_connection_err ''unrecognized protocol'' st))"
  using assms proto_in_table [OF recv_handlers_nonempty, of "protocol (conn st)" p]
  by (simp add: gb_operation_request_handle_def recv_handlers_none Let_def)

lemma unrecognized_protocol_completes_twice:
  assumes "unat proto \<noteq> GREYBUS_PROTOCOL_I2C p" and "unat proto \<noteq> GREYBUS_PROTOCOL_BATTERY p"
  shows "notifications_after 0 (recv_then_work p ex_request (idle_state proto [])) = Some 2"
  using assms
  by (simp add: recv_then_work_def recv_ex_request run_recv_workqueue_def
      gb_operation_recv_work_def request_handle_unrecognized gb_operation_complete_def
      gb_connection_err_def op_set_def greybus_gbuf_finished_def
      notifications_after_def notifications_def zeroed_operation_def Let_def)

end
